theory Spec2Isabelle
  imports Main "HOL-Library.AList"
begin

section \<open>JavaScript values and the operators the handlers apply to them\<close>

text \<open>
  The repository is one serverless function in two revisions: the text handler
  (\<^verbatim>\<open>api/gemini-2.5-flash.ts\<close>) and the image-preview handler (\<^verbatim>\<open>api/gemini-proxy.ts\<close>).
  Both read three environment variables, look at the method, two headers and the body of
  the request, call \<^verbatim>\<open>fetch\<close> once at most and fill in the response object.

  Strings are lists of code units below 256. A Number is represented by the text that
  \<^verbatim>\<open>Number.prototype.toString\<close> yields for it (\<open>''0''\<close> for both zeros, \<open>''NaN''\<close>,
  \<open>''Infinity''\<close>, \<open>''1.5''\<close>, ...), which determines the number; an object is the list of
  its own properties in property order.
\<close>

datatype jsval =
    JUndefined
  | JNull
  | JBool bool
  | JNum string
  | JStr string
  | JArr "jsval list"
  | JObj "(string \<times> jsval) list"

text \<open>The \<^verbatim>\<open>typeof\<close> operator.\<close>

fun typeof :: "jsval \<Rightarrow> string" where
  "typeof JUndefined = ''undefined''"
| "typeof JNull = ''object''"
| "typeof (JBool b) = ''boolean''"
| "typeof (JNum n) = ''number''"
| "typeof (JStr s) = ''string''"
| "typeof (JArr xs) = ''object''"
| "typeof (JObj kvs) = ''object''"

text \<open>\<^verbatim>\<open>ToBoolean\<close>: what \<^verbatim>\<open>if (v)\<close>, \<^verbatim>\<open>!v\<close> and \<^verbatim>\<open>v || d\<close> test.\<close>

fun truthy :: "jsval \<Rightarrow> bool" where
  "truthy JUndefined = False"
| "truthy JNull = False"
| "truthy (JBool b) = b"
| "truthy (JNum n) = (n \<noteq> ''0'' \<and> n \<noteq> ''NaN'')"
| "truthy (JStr s) = (s \<noteq> [])"
| "truthy (JArr xs) = True"
| "truthy (JObj kvs) = True"

text \<open>\<^verbatim>\<open>xs.join(sep)\<close> on strings.\<close>

fun join :: "string \<Rightarrow> string list \<Rightarrow> string" where
  "join sep [] = []"
| "join sep [x] = x"
| "join sep (x # y # ys) = x @ sep @ join sep (y # ys)"

text \<open>
  \<^verbatim>\<open>ToString\<close>, which \<^verbatim>\<open>JSON.parse\<close> applies to its argument. An array is joined with
  commas, \<^verbatim>\<open>null\<close> and \<^verbatim>\<open>undefined\<close> elements giving the empty string.
\<close>

fun ToString :: "jsval \<Rightarrow> string" where
  "ToString JUndefined = ''undefined''"
| "ToString JNull = ''null''"
| "ToString (JBool b) = (if b then ''true'' else ''false'')"
| "ToString (JNum n) = n"
| "ToString (JStr s) = s"
| "ToString (JArr xs) =
     join '','' (map (\<lambda>x. if x = JNull \<or> x = JUndefined then [] else ToString x) xs)"
| "ToString (JObj kvs) = ''[object Object]''"

text \<open>
  Reading a property. The handlers read \<^verbatim>\<open>generationConfig\<close> and
  \<^verbatim>\<open>response_mime_type\<close> only, names that no prototype defines, so that the read finds an
  own property of an object or \<^verbatim>\<open>undefined\<close>.
\<close>

fun get_prop :: "jsval \<Rightarrow> string \<Rightarrow> jsval" where
  "get_prop (JObj kvs) k = (case map_of kvs k of None \<Rightarrow> JUndefined | Some v \<Rightarrow> v)"
| "get_prop v k = JUndefined"

text \<open>Optional chaining \<^verbatim>\<open>v?.k\<close>: \<^verbatim>\<open>undefined\<close> on \<^verbatim>\<open>null\<close> and \<^verbatim>\<open>undefined\<close>, the read otherwise.\<close>

definition opt_get :: "jsval \<Rightarrow> string \<Rightarrow> jsval" where
  "opt_get v k = (if v = JNull \<or> v = JUndefined then JUndefined else get_prop v k)"

text \<open>\<^verbatim>\<open>delete v.k\<close> and the write \<^verbatim>\<open>v.k = w\<close> to a property that exists.\<close>

fun delete_prop :: "jsval \<Rightarrow> string \<Rightarrow> jsval" where
  "delete_prop (JObj kvs) k = JObj (AList.delete k kvs)"
| "delete_prop v k = v"

fun set_prop :: "jsval \<Rightarrow> string \<Rightarrow> jsval \<Rightarrow> jsval" where
  "set_prop (JObj kvs) k w = JObj (AList.update k w kvs)"
| "set_prop v k w = v"

fun has_prop :: "jsval \<Rightarrow> string \<Rightarrow> bool" where
  "has_prop (JObj kvs) k = (k \<in> fst ` set kvs)"
| "has_prop v k = False"

subsection \<open>\<^verbatim>\<open>JSON.stringify\<close>\<close>

definition hex_digit :: "nat \<Rightarrow> char" where
  "hex_digit n = ''0123456789abcdef'' ! (n mod 16)"

definition QuoteJSONChar :: "char \<Rightarrow> string" where
  "QuoteJSONChar c =
     (if c = CHR 0x08 then [CHR 0x5C, CHR ''b'']
      else if c = CHR 0x09 then [CHR 0x5C, CHR ''t'']
      else if c = CHR 0x0A then [CHR 0x5C, CHR ''n'']
      else if c = CHR 0x0C then [CHR 0x5C, CHR ''f'']
      else if c = CHR 0x0D then [CHR 0x5C, CHR ''r'']
      else if c = CHR 0x22 then [CHR 0x5C, CHR 0x22]
      else if c = CHR 0x5C then [CHR 0x5C, CHR 0x5C]
      else if (of_char c :: nat) < 0x20
        then [CHR 0x5C, CHR ''u'', CHR ''0'', CHR ''0'',
              hex_digit (of_char c div 16), hex_digit (of_char c mod 16)]
      else [c])"

definition QuoteJSONString :: "string \<Rightarrow> string" where
  "QuoteJSONString s = CHR 0x22 # concat (map QuoteJSONChar s) @ [CHR 0x22]"

text \<open>
  \<^verbatim>\<open>JSON.stringify(v)\<close> without replacer and indentation; \<open>None\<close> is the result
  \<^verbatim>\<open>undefined\<close>. A property whose value serialises to \<^verbatim>\<open>undefined\<close> is left out of an
  object and is \<^verbatim>\<open>null\<close> in an array; a number that is not finite is \<^verbatim>\<open>null\<close>.
\<close>

fun JSON_stringify :: "jsval \<Rightarrow> string option" where
  "JSON_stringify JUndefined = None"
| "JSON_stringify JNull = Some ''null''"
| "JSON_stringify (JBool b) = Some (if b then ''true'' else ''false'')"
| "JSON_stringify (JNum n) =
     Some (if n = ''NaN'' \<or> n = ''Infinity'' \<or> n = ''-Infinity'' then ''null'' else n)"
| "JSON_stringify (JStr s) = Some (QuoteJSONString s)"
| "JSON_stringify (JArr xs) =
     Some (''['' @ join '',''
        (map (\<lambda>x. case JSON_stringify x of None \<Rightarrow> ''null'' | Some t \<Rightarrow> t) xs) @ '']'')"
| "JSON_stringify (JObj kvs) =
     Some (''{'' @ join '',''
        (concat (map (\<lambda>kv. case JSON_stringify (snd kv) of None \<Rightarrow> []
                           | Some t \<Rightarrow> [QuoteJSONString (fst kv) @ '':'' @ t]) kvs)) @ ''}'')"


subsection \<open>Strings that may be missing\<close>

text \<open>
  \<^verbatim>\<open>s || d\<close> on a string, \<^verbatim>\<open>v || d\<close> and \<^verbatim>\<open>v ?? d\<close> on a value that is a string or
  \<^verbatim>\<open>undefined\<close> (\<open>None\<close>): the empty string is falsy, and only \<^verbatim>\<open>undefined\<close> is nullish.
\<close>

definition str_or :: "string \<Rightarrow> string \<Rightarrow> string" where
  "str_or s d = (if s = [] then d else s)"

definition opt_or :: "string option \<Rightarrow> string \<Rightarrow> string" where
  "opt_or v d = (case v of None \<Rightarrow> d | Some s \<Rightarrow> str_or s d)"

definition nullish_or :: "string option \<Rightarrow> string \<Rightarrow> string" where
  "nullish_or v d = (case v of None \<Rightarrow> d | Some s \<Rightarrow> s)"

text \<open>\<^verbatim>\<open>s.split(c)\<close> for a one-character separator: never the empty list.\<close>

fun split_on :: "char \<Rightarrow> string \<Rightarrow> string list" where
  "split_on c [] = [[]]"
| "split_on c (x # xs) =
     (if x = c then [] # split_on c xs
      else (case split_on c xs of [] \<Rightarrow> [[x]] | w # ws \<Rightarrow> (x # w) # ws))"

text \<open>
  \<^verbatim>\<open>s.trim()\<close>. The white space and line terminators of ECMAScript below 256 are
  TAB, LF, VT, FF, CR, SP and NBSP.
\<close>

definition is_space :: "char \<Rightarrow> bool" where
  "is_space c \<longleftrightarrow> c = CHR 0x09 \<or> c = CHR 0x0A \<or> c = CHR 0x0B \<or> c = CHR 0x0C
      \<or> c = CHR 0x0D \<or> c = CHR 0x20 \<or> c = CHR 0xA0"

definition trim :: "string \<Rightarrow> string" where
  "trim s = rev (dropWhile is_space (rev (dropWhile is_space s)))"

section \<open>Media types: what \<^verbatim>\<open>res.send\<close> does to \<^verbatim>\<open>Content-Type\<close>\<close>

text \<open>
  \<^verbatim>\<open>res.send\<close> and \<^verbatim>\<open>res.json\<close> are the helpers that \<^verbatim>\<open>@vercel/node\<close> adds to the response
  object. Before writing a string, \<^verbatim>\<open>send\<close> replaces the \<^verbatim>\<open>Content-Type\<close> header by
  \<^verbatim>\<open>setCharset(type, 'utf-8')\<close>, that is, by
  \<^verbatim>\<open>format\<close> of \<^verbatim>\<open>parse(type)\<close> with the parameter \<^verbatim>\<open>charset\<close> set to \<^verbatim>\<open>utf-8\<close>, where
  \<^verbatim>\<open>parse\<close> and \<^verbatim>\<open>format\<close> are those of the package \<^verbatim>\<open>content-type\<close>. Both throw a
  \<^verbatim>\<open>TypeError\<close> on what is no media type.
\<close>

datatype js_error = TypeError (message: string)

text \<open>The characters of a token, of quoted text, of an escaped pair and of a value.\<close>

definition token_char :: "char \<Rightarrow> bool" where
  "token_char c \<longleftrightarrow>
     (let n = (of_char c :: nat)
      in n = 0x21 \<or> (0x23 \<le> n \<and> n \<le> 0x27) \<or> n = 0x2A \<or> n = 0x2B \<or> n = 0x2D \<or> n = 0x2E
         \<or> (0x30 \<le> n \<and> n \<le> 0x39) \<or> (0x41 \<le> n \<and> n \<le> 0x5A)
         \<or> (0x5E \<le> n \<and> n \<le> 0x7A) \<or> n = 0x7C \<or> n = 0x7E)"

definition qtext_char :: "char \<Rightarrow> bool" where
  "qtext_char c \<longleftrightarrow>
     (let n = (of_char c :: nat)
      in n = 0x0B \<or> n = 0x20 \<or> n = 0x21 \<or> (0x23 \<le> n \<and> n \<le> 0x5B)
         \<or> (0x5D \<le> n \<and> n \<le> 0x7E) \<or> 0x80 \<le> n)"

definition qesc_char :: "char \<Rightarrow> bool" where
  "qesc_char c \<longleftrightarrow> (let n = (of_char c :: nat) in n = 0x0B \<or> 0x20 \<le> n)"

definition text_char :: "char \<Rightarrow> bool" where
  "text_char c \<longleftrightarrow>
     (let n = (of_char c :: nat) in n = 0x0B \<or> (0x20 \<le> n \<and> n \<le> 0x7E) \<or> 0x80 \<le> n)"

definition is_token :: "string \<Rightarrow> bool" where
  "is_token s \<longleftrightarrow> s \<noteq> [] \<and> list_all token_char s"

text \<open>\<^verbatim>\<open>TYPE_REGEXP\<close>: a token, a slash, a token.\<close>

definition is_media_type :: "string \<Rightarrow> bool" where
  "is_media_type s \<longleftrightarrow>
     is_token (takeWhile (\<lambda>c. c \<noteq> CHR ''/'') s)
   \<and> (case dropWhile (\<lambda>c. c \<noteq> CHR ''/'') s of [] \<Rightarrow> False | c # t \<Rightarrow> is_token t)"

text \<open>\<^verbatim>\<open>toLowerCase\<close> on the characters of a token.\<close>

definition toLowerCase_char :: "char \<Rightarrow> char" where
  "toLowerCase_char c =
     (if 0x41 \<le> (of_char c :: nat) \<and> (of_char c :: nat) \<le> 0x5A
      then char_of ((of_char c :: nat) + 0x20) else c)"

text \<open>
  One match of \<^verbatim>\<open>PARAM_REGEXP\<close> at the start of \<open>s\<close>: a semicolon, a token, \<^verbatim>\<open>=\<close>, and a
  token or a quoted string, with spaces allowed around each; the result is the name, the
  value without quotes and escapes, and what follows the match. \<open>match_quoted\<close> reads a
  quoted string after its opening quote.
\<close>

fun match_quoted :: "string \<Rightarrow> (string \<times> string) option" where
  "match_quoted [] = None"
| "match_quoted (c # cs) =
     (if c = CHR 0x22 then Some ([], cs)
      else if c = CHR 0x5C then
        (case cs of
           [] \<Rightarrow> None
         | d # ds \<Rightarrow>
             if qesc_char d
             then (case match_quoted ds of None \<Rightarrow> None | Some (v, r) \<Rightarrow> Some (d # v, r))
             else None)
      else if qtext_char c
      then (case match_quoted cs of None \<Rightarrow> None | Some (v, r) \<Rightarrow> Some (c # v, r))
      else None)"

definition match_value :: "string \<Rightarrow> (string \<times> string) option" where
  "match_value s =
     (case s of
        [] \<Rightarrow> None
      | c # t \<Rightarrow>
          if c = CHR 0x22 then match_quoted t
          else if takeWhile token_char s = [] then None
          else Some (takeWhile token_char s, dropWhile token_char s))"

definition match_param :: "string \<Rightarrow> (string \<times> string \<times> string) option" where
  "match_param s =
     (case s of
        [] \<Rightarrow> None
      | c # s1 \<Rightarrow>
          if c \<noteq> CHR '';'' then None
          else
            let s2 = dropWhile (\<lambda>c. c = CHR '' '') s1;
                key = takeWhile token_char s2;
                s3 = dropWhile (\<lambda>c. c = CHR '' '') (dropWhile token_char s2)
            in if key = [] then None
               else (case s3 of
                       [] \<Rightarrow> None
                     | e # s4 \<Rightarrow>
                         if e \<noteq> CHR ''='' then None
                         else (case match_value (dropWhile (\<lambda>c. c = CHR '' '') s4) of
                                 None \<Rightarrow> None
                               | Some (v, r) \<Rightarrow>
                                   Some (key, v, dropWhile (\<lambda>c. c = CHR '' '') r))))"

text \<open>
  The parameters are the properties of an object: a name is kept once, with the value
  given last, and \<^verbatim>\<open>format\<close> writes them sorted by name. The list is kept sorted.
\<close>

fun str_less :: "string \<Rightarrow> string \<Rightarrow> bool" where
  "str_less [] [] = False"
| "str_less [] (y # ys) = True"
| "str_less (x # xs) [] = False"
| "str_less (x # xs) (y # ys) =
     ((of_char x :: nat) < of_char y \<or> (x = y \<and> str_less xs ys))"

fun set_parameter ::
  "string \<Rightarrow> string \<Rightarrow> (string \<times> string) list \<Rightarrow> (string \<times> string) list" where
  "set_parameter k v [] = [(k, v)]"
| "set_parameter k v ((k', v') # ps) =
     (if k = k' then (k, v) # ps
      else if str_less k k' then (k, v) # (k', v') # ps
      else (k', v') # set_parameter k v ps)"

text \<open>
  The loop of \<^verbatim>\<open>parse\<close> over the parameters: each match has to start where the last one
  ended, and the matches have to reach the end of the header.
\<close>

function parse_parameters ::
  "string \<Rightarrow> (string \<times> string) list \<Rightarrow> js_error + (string \<times> string) list" where
  "parse_parameters s ps =
     (if s = [] then Inr ps
      else (case match_param s of
              None \<Rightarrow> Inl (TypeError ''invalid parameter format'')
            | Some (k, v, r) \<Rightarrow>
                parse_parameters r (set_parameter (map toLowerCase_char k) v ps)))"
  by pat_completeness auto
termination
proof -
  have quoted: "length r < length s" if "match_quoted s = Some (v, r)" for s v r
    using that
  proof (induction s arbitrary: v r rule: match_quoted.induct)
    case 1
    then show ?case by simp
  next
    case (2 c cs)
    show ?case
    proof (cases "c = CHR 0x22")
      case True
      with "2.prems" show ?thesis by simp
    next
      case False
      note nq = this
      show ?thesis
      proof (cases "c = CHR 0x5C")
        case True
        with nq "2.prems" obtain d ds v' where cs: "cs = d # ds" and q: "qesc_char d"
          and m: "match_quoted ds = Some (v', r)"
          by (auto split: list.splits if_splits option.splits)
        from "2.IH"(1) [OF nq True cs q m] cs show ?thesis by simp
      next
        case False
        with nq "2.prems" obtain v' where q: "qtext_char c"
          and m: "match_quoted cs = Some (v', r)"
          by (auto split: if_splits option.splits)
        from "2.IH"(2) [OF nq False q m] show ?thesis by simp
      qed
    qed
  qed
  have val: "length r \<le> length s" if mv: "match_value s = Some (v, r)" for s v r
  proof (cases s)
    case Nil
    with mv show ?thesis by (simp add: match_value_def)
  next
    case (Cons c t)
    show ?thesis
    proof (cases "c = CHR 0x22")
      case True
      with mv Cons have "match_quoted t = Some (v, r)" by (simp add: match_value_def)
      then have "length r < length t" by (rule quoted)
      with Cons show ?thesis by simp
    next
      case False
      with mv Cons have "r = dropWhile token_char s"
        by (simp add: match_value_def split: if_splits)
      then show ?thesis by (simp add: length_dropWhile_le)
    qed
  qed
  have param: "length r < length s" if mp: "match_param s = Some (k, v, r)" for s k v r
  proof (cases s)
    case Nil
    with mp show ?thesis by (simp add: match_param_def)
  next
    case (Cons c s1)
    define s3 where "s3 = dropWhile (\<lambda>c. c = CHR '' '') (dropWhile token_char
       (dropWhile (\<lambda>c. c = CHR '' '') s1))"
    have l3: "length s3 \<le> length s1"
      unfolding s3_def by (meson length_dropWhile_le order_trans)
    from mp Cons have m: "(case s3 of [] \<Rightarrow> None
         | e # s4 \<Rightarrow> if e \<noteq> CHR ''='' then None
             else (case match_value (dropWhile (\<lambda>c. c = CHR '' '') s4) of None \<Rightarrow> None
                   | Some (v, r) \<Rightarrow>
                       Some (takeWhile token_char (dropWhile (\<lambda>c. c = CHR '' '') s1),
                         v, dropWhile (\<lambda>c. c = CHR '' '') r))) = Some (k, v, r)"
      by (simp add: match_param_def Let_def s3_def split: if_splits)
    then obtain e s4 where e: "s3 = e # s4" by (cases s3) simp_all
    with m obtain r' where mv: "match_value (dropWhile (\<lambda>c. c = CHR '' '') s4) = Some (v, r')"
      and r: "r = dropWhile (\<lambda>c. c = CHR '' '') r'"
      by (cases "match_value (dropWhile (\<lambda>c. c = CHR '' '') s4)") (auto split: if_splits)
    have "length r \<le> length r'" by (simp add: r length_dropWhile_le)
    also have "\<dots> \<le> length (dropWhile (\<lambda>c. c = CHR '' '') s4)" by (rule val [OF mv])
    also have "\<dots> \<le> length s4" by (rule length_dropWhile_le)
    also have "\<dots> < length s3" by (simp add: e)
    also note l3
    also have "length s1 < length s" by (simp add: Cons)
    finally show ?thesis .
  qed
  show ?thesis
    by (relation "measure (\<lambda>(s, ps). length s)") (auto dest: param)
qed

declare parse_parameters.simps [simp del]

text \<open>
  \<^verbatim>\<open>parse\<close>: the type is what precedes the first semicolon, trimmed, and has to match
  \<^verbatim>\<open>TYPE_REGEXP\<close>; it is lower-cased, as the parameter names are.
\<close>

definition parse_content_type ::
  "string \<Rightarrow> js_error + (string \<times> (string \<times> string) list)" where
  "parse_content_type header =
     (if header = [] then Inl (TypeError ''argument string is required'')
      else
        let type = trim (takeWhile (\<lambda>c. c \<noteq> CHR '';'') header)
        in if \<not> is_media_type type then Inl (TypeError ''invalid media type'')
           else (case parse_parameters (dropWhile (\<lambda>c. c \<noteq> CHR '';'') header) [] of
                   Inl err \<Rightarrow> Inl err
                 | Inr ps \<Rightarrow> Inr (map toLowerCase_char type, ps)))"

text \<open>\<^verbatim>\<open>qstring\<close> and \<^verbatim>\<open>format\<close>: a value that is no token is quoted.\<close>

definition qstring :: "string \<Rightarrow> js_error + string" where
  "qstring str =
     (if is_token str then Inr str
      else if str \<noteq> [] \<and> \<not> list_all text_char str
      then Inl (TypeError ''invalid parameter value'')
      else Inr (CHR 0x22
             # concat (map (\<lambda>c. if c = CHR 0x5C \<or> c = CHR 0x22 then [CHR 0x5C, c] else [c]) str)
             @ [CHR 0x22]))"

fun format_parameters :: "(string \<times> string) list \<Rightarrow> js_error + string" where
  "format_parameters [] = Inr []"
| "format_parameters ((k, v) # ps) =
     (case qstring v of
        Inl err \<Rightarrow> Inl err
      | Inr q \<Rightarrow>
          (case format_parameters ps of
             Inl err \<Rightarrow> Inl err
           | Inr rest \<Rightarrow> Inr (''; '' @ k @ ''='' @ q @ rest)))"

definition setCharset :: "string \<Rightarrow> js_error + string" where
  "setCharset type =
     (case parse_content_type type of
        Inl err \<Rightarrow> Inl err
      | Inr (t, ps) \<Rightarrow>
          (case format_parameters (set_parameter ''charset'' ''utf-8'' ps) of
             Inl err \<Rightarrow> Inl err
           | Inr params \<Rightarrow> Inr (t @ params)))"

section \<open>Environment, request, response, upstream\<close>

record process_env =
  ALLOWED_ORIGINS :: "string option"
  GEMINI_API_KEY :: "string option"
  CLIENT_TOKEN :: "string option"

text \<open>
  What the handlers read of \<^verbatim>\<open>req\<close>: \<^verbatim>\<open>req.method\<close>, \<^verbatim>\<open>req.headers.origin\<close>,
  \<^verbatim>\<open>req.headers['x-client-token']\<close> and \<^verbatim>\<open>req.body\<close> as the host hands it over
  (\<^verbatim>\<open>undefined\<close>, a string, or a value it has parsed already).
\<close>

record request =
  req_method :: string
  req_origin :: "string option"
  req_client_token :: "string option"
  req_body :: jsval

text \<open>
  What the handlers do to \<^verbatim>\<open>res\<close>: \<^verbatim>\<open>res.status(n)\<close>, \<^verbatim>\<open>res.setHeader(k, v)\<close> and, last,
  one of \<^verbatim>\<open>res.end()\<close>, \<^verbatim>\<open>res.json(v)\<close> and \<^verbatim>\<open>res.send(text)\<close>. The response holds the
  status, the headers and the body written: \<open>Unsent\<close> as long as nothing has ended the
  response, \<open>NoBody\<close> after \<^verbatim>\<open>end()\<close>, \<open>TextBody t\<close> for the string \<open>t\<close>, and \<open>JsonBody v\<close>
  for the string \<^verbatim>\<open>JSON.stringify(v)\<close>. Header names do not depend on case; the headers
  are kept under the spelling of the handlers. \<^verbatim>\<open>send\<close> also sets \<^verbatim>\<open>Content-Length\<close> and
  \<^verbatim>\<open>ETag\<close> (a hash of the body), which the handlers never touch and which are left out.
\<close>

datatype res_body = Unsent | NoBody | JsonBody jsval | TextBody string

record response =
  res_status :: nat
  res_headers :: "string \<rightharpoonup> string"
  res_body :: res_body

definition new_response :: response where
  "new_response = \<lparr>res_status = 200, res_headers = Map.empty, res_body = Unsent\<rparr>"

definition status :: "nat \<Rightarrow> response \<Rightarrow> response" where
  "status n res = res\<lparr>res_status := n\<rparr>"

definition setHeader :: "string \<Rightarrow> string \<Rightarrow> response \<Rightarrow> response" where
  "setHeader k v res = res\<lparr>res_headers := (res_headers res)(k \<mapsto> v)\<rparr>"

definition removeHeader :: "string \<Rightarrow> response \<Rightarrow> response" where
  "removeHeader k res = res\<lparr>res_headers := (res_headers res)(k := None)\<rparr>"

definition end_response :: "response \<Rightarrow> response" where
  "end_response res = res\<lparr>res_body := NoBody\<rparr>"

text \<open>
  \<^verbatim>\<open>send(req, res, body)\<close> for a string: without \<^verbatim>\<open>Content-Type\<close> the type is
  \<^verbatim>\<open>text/html\<close>; the header becomes \<^verbatim>\<open>setCharset(type, 'utf-8')\<close>; with status 204 or 304
  the header is removed and the body is empty; a \<^verbatim>\<open>HEAD\<close> request gets no body. The
  result is the response and the error thrown, if \<^verbatim>\<open>setCharset\<close> throws one: then
  nothing has been written. \<open>chunk\<close> is the body as the response records it.
\<close>

definition send_string :: "request \<Rightarrow> res_body \<Rightarrow> response \<Rightarrow> response \<times> js_error option" where
  "send_string req chunk res =
     (let res = (if opt_or (res_headers res ''Content-Type'') [] = []
                 then setHeader ''Content-Type'' ''text/html'' res else res)
      in case setCharset (opt_or (res_headers res ''Content-Type'') []) of
           Inl err \<Rightarrow> (res, Some err)
         | Inr type \<Rightarrow>
             let res = setHeader ''Content-Type'' type res;
                 strip = (res_status res = 204 \<or> res_status res = 304);
                 res = (if strip then removeHeader ''Content-Type'' res else res);
                 chunk = (if strip then TextBody [] else chunk)
             in (res\<lparr>res_body := (if req_method req = ''HEAD'' then NoBody else chunk)\<rparr>,
                 None))"

definition send :: "request \<Rightarrow> string \<Rightarrow> response \<Rightarrow> response \<times> js_error option" where
  "send req text res = send_string req (TextBody text) res"

text \<open>
  \<^verbatim>\<open>json(req, res, v)\<close>: without \<^verbatim>\<open>Content-Type\<close> the type is
  \<^verbatim>\<open>application/json; charset=utf-8\<close>; then \<^verbatim>\<open>send\<close> of \<^verbatim>\<open>JSON.stringify(v)\<close>.
\<close>

definition json :: "request \<Rightarrow> jsval \<Rightarrow> response \<Rightarrow> response \<times> js_error option" where
  "json req v res =
     send_string req (JsonBody v)
       (if opt_or (res_headers res ''Content-Type'') [] = []
        then setHeader ''Content-Type'' ''application/json; charset=utf-8'' res else res)"

text \<open>
  The one call of \<^verbatim>\<open>fetch\<close>: the URL, the method, the two request headers and the body.
  \<^verbatim>\<open>fetch\<close> rejects with a \<^verbatim>\<open>TypeError\<close> (no abort signal is passed), or resolves to a
  response of which the handlers read the status, the \<^verbatim>\<open>Content-Type\<close> header
  (\<open>None\<close> for \<^verbatim>\<open>null\<close>) and \<^verbatim>\<open>text()\<close>, which rejects with a \<^verbatim>\<open>TypeError\<close> as well
  when the body cannot be read.
\<close>

record fetch_call =
  fc_url :: string
  fc_method :: string
  fc_content_type :: string
  fc_x_goog_api_key :: string
  fc_body :: "string option"

record upstream =
  up_status :: nat
  up_content_type :: "string option"
  up_text :: "js_error + string"

datatype fetch_outcome = Rejected js_error | Resolved upstream

text \<open>
  What one invocation leaves behind: the response, the call of \<^verbatim>\<open>fetch\<close> it made, if
  any, and the error that the handler lets escape, if any. When an error escapes,
  \<open>sent\<close> is the response object as the handler left it: nothing has been written, and
  its body is \<open>Unsent\<close>.
\<close>

record outcome =
  sent :: response
  fetched :: "fetch_call option"
  threw :: "js_error option"

text \<open>
  \<^verbatim>\<open>return res.status(n).json(v)\<close>: the handler ends with the result of the helper.
\<close>

definition finish :: "response \<times> js_error option \<Rightarrow> fetch_call option \<Rightarrow> outcome" where
  "finish r call = \<lparr>sent = fst r, fetched = call, threw = snd r\<rparr>"

text \<open>\<^verbatim>\<open>String(err)\<close> of an error object, and \<^verbatim>\<open>String(err?.message || err)\<close>.\<close>

fun error_toString :: "js_error \<Rightarrow> string" where
  "error_toString (TypeError m) = (if m = [] then ''TypeError'' else ''TypeError: '' @ m)"

definition error_detail :: "js_error \<Rightarrow> string" where
  "error_detail err = (if message err \<noteq> [] then message err else error_toString err)"

section \<open>The code shared by the two handlers\<close>

text \<open>
  \<^verbatim>\<open>typeof req.body === 'object' ? req.body : JSON.parse(req.body || '{}')\<close>, with
  \<^verbatim>\<open>JSON.parse\<close> a parameter: \<open>None\<close> is the \<^verbatim>\<open>SyntaxError\<close> that the handlers catch.
\<close>

definition parse_body :: "(string \<Rightarrow> jsval option) \<Rightarrow> jsval \<Rightarrow> jsval option" where
  "parse_body JSON_parse b =
     (if typeof b = ''object'' then Some b
      else JSON_parse (if truthy b then ToString b else ''{}''))"

text \<open>
  \<^verbatim>\<open>if (body?.generationConfig?.response_mime_type) delete body.generationConfig.response_mime_type\<close>.
  The deletion mutates the object that \<^verbatim>\<open>body.generationConfig\<close> refers to; here the
  body is rebuilt around it.
\<close>

definition sanitize :: "jsval \<Rightarrow> jsval" where
  "sanitize body =
     (if truthy (opt_get (opt_get body ''generationConfig'') ''response_mime_type'')
      then set_prop body ''generationConfig''
             (delete_prop (get_prop body ''generationConfig'') ''response_mime_type'')
      else body)"

definition error_body :: "string \<Rightarrow> jsval" where
  "error_body msg = JObj [(''error'', JStr msg)]"

definition upstream_error_body :: "js_error \<Rightarrow> jsval" where
  "upstream_error_body err =
     JObj [(''error'', JStr ''Upstream fetch failed''), (''detail'', JStr (error_detail err))]"

definition upstream_call :: "string \<Rightarrow> string \<Rightarrow> jsval \<Rightarrow> fetch_call" where
  "upstream_call url apiKey body =
     \<lparr>fc_url = url, fc_method = ''POST'', fc_content_type = ''application/json'',
      fc_x_goog_api_key = apiKey, fc_body = JSON_stringify body\<rparr>"

section \<open>The text handler\<close>

definition ENDPOINT_text :: string where
  "ENDPOINT_text =
     ''https://generativelanguage.googleapis.com/v1beta/models/gemini-2.5-flash:generateContent''"

definition getAllowedOrigins :: "process_env \<Rightarrow> string list" where
  "getAllowedOrigins env =
     filter (\<lambda>s. s \<noteq> []) (map trim (split_on CHR '','' (opt_or (ALLOWED_ORIGINS env) [])))"

definition handler_text ::
  "process_env \<Rightarrow> (string \<Rightarrow> jsval option) \<Rightarrow> (fetch_call \<Rightarrow> fetch_outcome) \<Rightarrow> request \<Rightarrow> outcome"
where
  "handler_text env JSON_parse fetch req =
     (let origin = opt_or (req_origin req) [];
          allowList = getAllowedOrigins env;
          allowOrigin = (if allowList = [] \<or> origin \<in> set allowList
                         then str_or origin ''*'' else []);
          res = setHeader ''Access-Control-Allow-Methods'' ''POST, OPTIONS'' new_response;
          res = setHeader ''Access-Control-Allow-Headers'' ''Content-Type, X-Client-Token'' res;
          res = (if allowOrigin \<noteq> []
                 then setHeader ''Access-Control-Allow-Origin'' allowOrigin res else res)
      in if req_method req = ''OPTIONS''
         then \<lparr>sent = end_response (status 204 res), fetched = None, threw = None\<rparr>
         else if req_method req \<noteq> ''POST''
         then finish (json req (error_body ''Only POST allowed'') (status 405 res)) None
         else
           let apiKey = opt_or (GEMINI_API_KEY env) [] in
           if apiKey = []
           then finish (json req (error_body ''Server misconfigured: missing GEMINI_API_KEY'')
                          (status 500 res)) None
           else
             let requiredToken = opt_or (CLIENT_TOKEN env) [] in
             if requiredToken \<noteq> [] \<and> opt_or (req_client_token req) [] \<noteq> requiredToken
             then finish (json req (error_body ''Unauthorized'') (status 401 res)) None
             else
               (case parse_body JSON_parse (req_body req) of
                  None \<Rightarrow> finish (json req (error_body ''Invalid JSON'') (status 400 res)) None
                | Some parsed \<Rightarrow>
                    let body = sanitize parsed;
                        call = upstream_call ENDPOINT_text apiKey body
                    in (case fetch call of
                          Rejected err \<Rightarrow>
                            finish (json req (upstream_error_body err) (status 502 res))
                              (Some call)
                        | Resolved up \<Rightarrow>
                            (case up_text up of
                               Inl err \<Rightarrow>
                                 finish (json req (upstream_error_body err) (status 502 res))
                                   (Some call)
                             | Inr text \<Rightarrow>
                                 let res = status (up_status up) res;
                                     res = setHeader ''Content-Type''
                                             (opt_or (up_content_type up) ''application/json'') res;
                                     res = (if allowOrigin \<noteq> []
                                            then setHeader ''Access-Control-Allow-Origin''
                                                   allowOrigin res
                                            else res);
                                     r = send req text res
                                 in (case snd r of
                                       None \<Rightarrow>
                                         \<lparr>sent = fst r, fetched = Some call, threw = None\<rparr>
                                     | Some err \<Rightarrow>
                                         finish (json req (upstream_error_body err)
                                                   (status 502 (fst r))) (Some call))))))"

section \<open>The image-preview handler\<close>

definition ENDPOINT_image :: string where
  "ENDPOINT_image =
     ''https://generativelanguage.googleapis.com/v1beta/models/gemini-2.5-flash-image-preview:generateContent''"

definition parseAllowed :: "process_env \<Rightarrow> string list" where
  "parseAllowed env =
     filter (\<lambda>s. s \<noteq> []) (map trim (split_on CHR '','' (opt_or (ALLOWED_ORIGINS env) [])))"

definition setCors :: "process_env \<Rightarrow> response \<Rightarrow> string option \<Rightarrow> response" where
  "setCors env res originHeader =
     (let origin = nullish_or originHeader [];
          allowList = parseAllowed env;
          allowAny = (allowList = [] \<or> origin \<in> set allowList \<or> origin = ''null'');
          allowOrigin = (if allowAny then str_or origin ''*'' else []);
          res = (if allowOrigin \<noteq> []
                 then setHeader ''Access-Control-Allow-Origin'' allowOrigin res else res);
          res = setHeader ''Vary'' ''Origin'' res;
          res = setHeader ''Access-Control-Allow-Methods'' ''POST, OPTIONS'' res
      in setHeader ''Access-Control-Allow-Headers'' ''Content-Type, X-Client-Token'' res)"

definition handler_image ::
  "process_env \<Rightarrow> (string \<Rightarrow> jsval option) \<Rightarrow> (fetch_call \<Rightarrow> fetch_outcome) \<Rightarrow> request \<Rightarrow> outcome"
where
  "handler_image env JSON_parse fetch req =
     (let res = setCors env new_response (req_origin req)
      in if req_method req = ''OPTIONS''
         then \<lparr>sent = end_response (status 204 res), fetched = None, threw = None\<rparr>
         else if req_method req \<noteq> ''POST''
         then finish (json req (error_body ''Only POST allowed'') (status 405 res)) None
         else
           let apiKey = opt_or (GEMINI_API_KEY env) [] in
           if apiKey = []
           then finish (json req (error_body ''Server misconfigured: missing GEMINI_API_KEY'')
                          (status 500 res)) None
           else
             let requiredToken = opt_or (CLIENT_TOKEN env) [] in
             if requiredToken \<noteq> [] \<and> opt_or (req_client_token req) [] \<noteq> requiredToken
             then finish (json req (error_body ''Unauthorized'') (status 401 res)) None
             else
               (case parse_body JSON_parse (req_body req) of
                  None \<Rightarrow> finish (json req (error_body ''Invalid JSON'') (status 400 res)) None
                | Some parsed \<Rightarrow>
                    let body = sanitize parsed;
                        call = upstream_call ENDPOINT_image apiKey body
                    in (case fetch call of
                          Rejected err \<Rightarrow>
                            let res = setCors env res (req_origin req)
                            in finish (json req (upstream_error_body err) (status 502 res))
                                 (Some call)
                        | Resolved up \<Rightarrow>
                            (case up_text up of
                               Inl err \<Rightarrow>
                                 let res = setCors env res (req_origin req)
                                 in finish (json req (upstream_error_body err) (status 502 res))
                                      (Some call)
                             | Inr text \<Rightarrow>
                                 let res = status (up_status up) res;
                                     res = setHeader ''Content-Type''
                                             (opt_or (up_content_type up) ''application/json'') res;
                                     res = setCors env res (req_origin req);
                                     r = send req text res
                                 in (case snd r of
                                       None \<Rightarrow>
                                         \<lparr>sent = fst r, fetched = Some call, threw = None\<rparr>
                                     | Some err \<Rightarrow>
                                         let res = setCors env (fst r) (req_origin req)
                                         in finish (json req (upstream_error_body err)
                                                      (status 502 res)) (Some call))))))"

section \<open>The handlers after their cross-origin lines\<close>

text \<open>
  For the proofs, the part of each handler that follows its first cross-origin lines,
  as a function of what those lines compute: \<open>allowOrigin\<close> and \<open>res\<close> in the text handler,
  \<open>res\<close> in the image-preview handler. \<open>handler_text_respond\<close> and
  \<open>handler_image_respond\<close> below show that the handlers are these functions at the
  values they compute.
\<close>

definition text_respond ::
  "process_env \<Rightarrow> (string \<Rightarrow> jsval option) \<Rightarrow> (fetch_call \<Rightarrow> fetch_outcome) \<Rightarrow> request
     \<Rightarrow> string \<Rightarrow> response \<Rightarrow> outcome"
where
  "text_respond env JSON_parse fetch req allowOrigin res =
     (if req_method req = ''OPTIONS''
      then \<lparr>sent = end_response (status 204 res), fetched = None, threw = None\<rparr>
      else if req_method req \<noteq> ''POST''
      then finish (json req (error_body ''Only POST allowed'') (status 405 res)) None
      else
        let apiKey = opt_or (GEMINI_API_KEY env) [] in
        if apiKey = []
        then finish (json req (error_body ''Server misconfigured: missing GEMINI_API_KEY'')
                       (status 500 res)) None
        else
          let requiredToken = opt_or (CLIENT_TOKEN env) [] in
          if requiredToken \<noteq> [] \<and> opt_or (req_client_token req) [] \<noteq> requiredToken
          then finish (json req (error_body ''Unauthorized'') (status 401 res)) None
          else
            (case parse_body JSON_parse (req_body req) of
               None \<Rightarrow> finish (json req (error_body ''Invalid JSON'') (status 400 res)) None
             | Some parsed \<Rightarrow>
                 let body = sanitize parsed;
                     call = upstream_call ENDPOINT_text apiKey body
                 in (case fetch call of
                       Rejected err \<Rightarrow>
                         finish (json req (upstream_error_body err) (status 502 res))
                           (Some call)
                     | Resolved up \<Rightarrow>
                         (case up_text up of
                            Inl err \<Rightarrow>
                              finish (json req (upstream_error_body err) (status 502 res))
                                (Some call)
                          | Inr text \<Rightarrow>
                              let res = status (up_status up) res;
                                  res = setHeader ''Content-Type''
                                          (opt_or (up_content_type up) ''application/json'') res;
                                  res = (if allowOrigin \<noteq> []
                                         then setHeader ''Access-Control-Allow-Origin''
                                                allowOrigin res
                                         else res);
                                  r = send req text res
                              in (case snd r of
                                    None \<Rightarrow>
                                      \<lparr>sent = fst r, fetched = Some call, threw = None\<rparr>
                                  | Some err \<Rightarrow>
                                      finish (json req (upstream_error_body err)
                                                (status 502 (fst r))) (Some call))))))"

definition image_respond ::
  "process_env \<Rightarrow> (string \<Rightarrow> jsval option) \<Rightarrow> (fetch_call \<Rightarrow> fetch_outcome) \<Rightarrow> request
     \<Rightarrow> response \<Rightarrow> outcome"
where
  "image_respond env JSON_parse fetch req res =
     (if req_method req = ''OPTIONS''
      then \<lparr>sent = end_response (status 204 res), fetched = None, threw = None\<rparr>
      else if req_method req \<noteq> ''POST''
      then finish (json req (error_body ''Only POST allowed'') (status 405 res)) None
      else
        let apiKey = opt_or (GEMINI_API_KEY env) [] in
        if apiKey = []
        then finish (json req (error_body ''Server misconfigured: missing GEMINI_API_KEY'')
                       (status 500 res)) None
        else
          let requiredToken = opt_or (CLIENT_TOKEN env) [] in
          if requiredToken \<noteq> [] \<and> opt_or (req_client_token req) [] \<noteq> requiredToken
          then finish (json req (error_body ''Unauthorized'') (status 401 res)) None
          else
            (case parse_body JSON_parse (req_body req) of
               None \<Rightarrow> finish (json req (error_body ''Invalid JSON'') (status 400 res)) None
             | Some parsed \<Rightarrow>
                 let body = sanitize parsed;
                     call = upstream_call ENDPOINT_image apiKey body
                 in (case fetch call of
                       Rejected err \<Rightarrow>
                         let res = setCors env res (req_origin req)
                         in finish (json req (upstream_error_body err) (status 502 res))
                              (Some call)
                     | Resolved up \<Rightarrow>
                         (case up_text up of
                            Inl err \<Rightarrow>
                              let res = setCors env res (req_origin req)
                              in finish (json req (upstream_error_body err) (status 502 res))
                                   (Some call)
                          | Inr text \<Rightarrow>
                              let res = status (up_status up) res;
                                  res = setHeader ''Content-Type''
                                          (opt_or (up_content_type up) ''application/json'') res;
                                  res = setCors env res (req_origin req);
                                  r = send req text res
                              in (case snd r of
                                    None \<Rightarrow>
                                      \<lparr>sent = fst r, fetched = Some call, threw = None\<rparr>
                                  | Some err \<Rightarrow>
                                      let res = setCors env (fst r) (req_origin req)
                                      in finish (json req (upstream_error_body err)
                                                   (status 502 res)) (Some call))))))"

section \<open>Admission, and environments to run the handlers in\<close>

text \<open>
  A request passes admission when each of the checks before the upstream call lets it
  through: the method is \<^verbatim>\<open>POST\<close>, \<^verbatim>\<open>GEMINI_API_KEY\<close> is set to \<open>apiKey\<close>, no client
  token is required or the \<^verbatim>\<open>X-Client-Token\<close> header carries it, and the body parses to
  \<open>parsed\<close>.
\<close>

definition passes_admission ::
  "process_env \<Rightarrow> (string \<Rightarrow> jsval option) \<Rightarrow> request \<Rightarrow> string \<Rightarrow> jsval \<Rightarrow> bool"
where
  "passes_admission env JSON_parse req apiKey parsed \<longleftrightarrow>
     req_method req = ''POST''
   \<and> GEMINI_API_KEY env = Some apiKey \<and> apiKey \<noteq> []
   \<and> (CLIENT_TOKEN env = None \<or> CLIENT_TOKEN env = Some []
        \<or> req_client_token req = CLIENT_TOKEN env)
   \<and> parse_body JSON_parse (req_body req) = Some parsed"

text \<open>
  For the evaluations at concrete inputs: a parser that knows the text \<^verbatim>\<open>{}\<close> and rejects
  the rest (used at \<^verbatim>\<open>{}\<close> only, where \<^verbatim>\<open>JSON.parse\<close> does the same), an
  upstream that cannot be reached, an upstream that answers 200 with the request body,
  and an upstream that answers 429 without \<^verbatim>\<open>Content-Type\<close>.
\<close>

definition JSON_parse_example :: "string \<Rightarrow> jsval option" where
  "JSON_parse_example s = (if s = ''{}'' then Some (JObj []) else None)"

definition fetch_unreachable :: "fetch_call \<Rightarrow> fetch_outcome" where
  "fetch_unreachable call = Rejected (TypeError ''fetch failed'')"

definition fetch_echo :: "fetch_call \<Rightarrow> fetch_outcome" where
  "fetch_echo call =
     Resolved \<lparr>up_status = 200, up_content_type = Some ''application/json'',
               up_text = Inr (case fc_body call of None \<Rightarrow> [] | Some t \<Rightarrow> t)\<rparr>"



section \<open>Auxiliary facts\<close>

lemmas res_ops = status_def setHeader_def removeHeader_def end_response_def new_response_def

lemmas handler_splits = option.splits fetch_outcome.splits sum.splits

text \<open>The two files compute the allow-list with the same expression.\<close>

lemma parseAllowed_eq: "parseAllowed env = getAllowedOrigins env"
  by (simp add: parseAllowed_def getAllowedOrigins_def)

text \<open>\<^verbatim>\<open>filter(Boolean)\<close> leaves no empty entry, so a missing or empty \<^verbatim>\<open>Origin\<close> is never listed.\<close>

lemma empty_not_allowed: "[] \<notin> set (getAllowedOrigins env)"
  by (simp add: getAllowedOrigins_def)

lemma get_prop_opt_get: "opt_get v k = get_prop v k"
  by (cases v) (simp_all add: opt_get_def)

lemma keys_delete:
  "k \<in> fst ` set (AList.delete k' al) \<longleftrightarrow> k \<in> fst ` set al \<and> k \<noteq> k'"
proof -
  have "fst ` set (AList.delete k' al) = set (map fst (AList.delete k' al))" by simp
  also have "\<dots> = set (map fst al) - {k'}" by (simp only: delete_keys set_removeAll)
  finally show ?thesis by auto
qed


subsection \<open>What \<^verbatim>\<open>send\<close> and \<^verbatim>\<open>json\<close> change\<close>

text \<open>The two types that the helpers and the handlers write themselves.\<close>

lemma setCharset_json_utf8:
  "setCharset ''application/json; charset=utf-8'' = Inr ''application/json; charset=utf-8''"
  by code_simp


text \<open>The helpers leave the status and every header but \<^verbatim>\<open>Content-Type\<close> alone.\<close>

lemma send_string_status: "res_status (fst (send_string req c res)) = res_status res"
  by (simp add: send_string_def Let_def res_ops split: sum.splits)

lemma send_string_headers:
  "k \<noteq> ''Content-Type'' \<Longrightarrow> res_headers (fst (send_string req c res)) k = res_headers res k"
  by (simp add: send_string_def Let_def res_ops split: sum.splits)

lemma send_status: "res_status (fst (send req t res)) = res_status res"
  by (simp add: send_def send_string_status)

lemma send_headers:
  "k \<noteq> ''Content-Type'' \<Longrightarrow> res_headers (fst (send req t res)) k = res_headers res k"
  by (simp add: send_def send_string_headers)

lemma json_status: "res_status (fst (json req v res)) = res_status res"
  by (simp add: json_def send_string_status res_ops)

lemma json_headers:
  "k \<noteq> ''Content-Type'' \<Longrightarrow> res_headers (fst (json req v res)) k = res_headers res k"
  by (simp add: json_def send_string_headers res_ops)

text \<open>
  \<^verbatim>\<open>json\<close> on a response without \<^verbatim>\<open>Content-Type\<close> and with a status other than 204 and
  304 does not throw and writes the value.
\<close>

lemma json_fresh:
  assumes "res_headers res ''Content-Type'' = None"
    and "res_status res \<noteq> 204" and "res_status res \<noteq> 304"
  shows "snd (json req v res) = None"
    and "res_body (fst (json req v res))
           = (if req_method req = ''HEAD'' then NoBody else JsonBody v)"
    and "res_headers (fst (json req v res)) ''Content-Type''
           = Some ''application/json; charset=utf-8''"
  using assms
  by (simp_all add: json_def send_string_def Let_def res_ops opt_or_def str_or_def
      setCharset_json_utf8)



text \<open>The body that a helper leaves is the one before, an empty one, or its argument.\<close>

lemma send_string_body_neq:
  "res_body res \<noteq> JsonBody w \<Longrightarrow> c \<noteq> JsonBody w
     \<Longrightarrow> res_body (fst (send_string req c res)) \<noteq> JsonBody w"
  by (simp add: send_string_def Let_def res_ops split: sum.splits)

lemma send_body_neq:
  "res_body res \<noteq> JsonBody w \<Longrightarrow> res_body (fst (send req t res)) \<noteq> JsonBody w"
  by (simp add: send_def send_string_body_neq)

lemma json_body_neq:
  "res_body res \<noteq> JsonBody w \<Longrightarrow> v \<noteq> w \<Longrightarrow> res_body (fst (json req v res)) \<noteq> JsonBody w"
  by (simp add: json_def send_string_body_neq res_ops)

subsection \<open>The headers of \<^verbatim>\<open>setCors\<close> and of the two handlers\<close>

lemma setCors_status: "res_status (setCors env res h) = res_status res"
  and setCors_body: "res_body (setCors env res h) = res_body res"
  and setCors_content_type:
    "res_headers (setCors env res h) ''Content-Type'' = res_headers res ''Content-Type''"
  by (simp_all add: setCors_def Let_def res_ops)

lemma setCors_fixed:
  "res_headers (setCors env res h) ''Vary'' = Some ''Origin''"
  "res_headers (setCors env res h) ''Access-Control-Allow-Methods'' = Some ''POST, OPTIONS''"
  "res_headers (setCors env res h) ''Access-Control-Allow-Headers''
     = Some ''Content-Type, X-Client-Token''"
  by (simp_all add: setCors_def Let_def res_ops)

lemma setCors_allow_origin:
  "res_headers (setCors env res h) ''Access-Control-Allow-Origin'' =
     (if parseAllowed env = [] \<or> nullish_or h [] \<in> set (parseAllowed env)
         \<or> nullish_or h [] = ''null''
      then Some (str_or (nullish_or h []) ''*'')
      else res_headers res ''Access-Control-Allow-Origin'')"
  by (simp add: setCors_def Let_def res_ops str_or_def)

lemma status_headers: "res_headers (status n res) = res_headers res"
  and status_body: "res_body (status n res) = res_body res"
  and status_status: "res_status (status n res) = n"
  and setHeader_body: "res_body (setHeader k v res) = res_body res"
  and end_response_headers: "res_headers (end_response res) = res_headers res"
  by (simp_all add: res_ops)

lemma setCors_again:
  assumes "k \<noteq> ''Content-Type''"
    and "\<forall>k'. k' \<noteq> ''Content-Type'' \<longrightarrow>
           res_headers res' k' = res_headers (setCors env res h) k'"
  shows "res_headers (setCors env res' h) k = res_headers (setCors env res h) k"
proof -
  from assms have "res_headers res' k = res_headers (setCors env res h) k" by simp
  then show ?thesis
    by (simp add: setCors_def Let_def res_ops)
qed

text \<open>The handlers are their second parts at what the cross-origin lines compute.\<close>

lemma handler_text_respond:
  "handler_text env p f req =
     text_respond env p f req
       (if getAllowedOrigins env = [] \<or> opt_or (req_origin req) [] \<in> set (getAllowedOrigins env)
        then str_or (opt_or (req_origin req) []) ''*'' else [])
       (let allowOrigin =
              (if getAllowedOrigins env = []
                  \<or> opt_or (req_origin req) [] \<in> set (getAllowedOrigins env)
               then str_or (opt_or (req_origin req) []) ''*'' else []);
            res = setHeader ''Access-Control-Allow-Methods'' ''POST, OPTIONS'' new_response;
            res = setHeader ''Access-Control-Allow-Headers'' ''Content-Type, X-Client-Token'' res
        in if allowOrigin \<noteq> []
           then setHeader ''Access-Control-Allow-Origin'' allowOrigin res else res)"
  unfolding handler_text_def text_respond_def Let_def by (rule refl)

lemma handler_image_respond:
  "handler_image env p f req =
     image_respond env p f req (setCors env new_response (req_origin req))"
  unfolding handler_image_def image_respond_def Let_def by (rule refl)

text \<open>
  After the cross-origin lines, no path of the text handler changes a header other than
  \<^verbatim>\<open>Content-Type\<close>, and no path of the image-preview handler changes what \<^verbatim>\<open>setCors\<close>
  has set.
\<close>

lemmas helper_headers = finish_def json_headers send_headers json_status send_status

lemma text_respond_headers:
  assumes "k \<noteq> ''Content-Type''"
    and "a \<noteq> [] \<longrightarrow> res_headers res ''Access-Control-Allow-Origin'' = Some a"
  shows "res_headers (sent (text_respond env p f req a res)) k = res_headers res k"
  using assms
  by (simp add: text_respond_def Let_def helper_headers res_ops split: handler_splits)

lemma image_respond_headers:
  assumes "k \<noteq> ''Content-Type''"
  shows "res_headers (sent (image_respond env p f req (setCors env res (req_origin req)))) k
           = res_headers (setCors env res (req_origin req)) k"
proof -
  let ?h = "req_origin req"
  let ?res = "setCors env res ?h"
  have 1: "res_headers (setCors env ?res ?h) k = res_headers ?res k"
    by (rule setCors_again [OF assms]) simp
  have 2: "res_headers (setCors env (setHeader ''Content-Type'' t (status n ?res)) ?h) k'
      = res_headers ?res k'" if "k' \<noteq> ''Content-Type''" for t n k'
    by (rule setCors_again [OF that]) (simp add: res_ops)
  have 3: "res_headers (setCors env (fst (send req s
        (setCors env (setHeader ''Content-Type'' t (status n ?res)) ?h))) ?h) k
      = res_headers ?res k" for t n s
    by (rule setCors_again [OF assms]) (simp add: send_headers 2)
  show ?thesis
    using assms
    by (simp add: image_respond_def Let_def helper_headers 1 2 3 status_headers
        end_response_headers split: handler_splits)
qed

lemma text_allow_origin:
  "res_headers (sent (handler_text env p f req)) ''Access-Control-Allow-Origin'' =
     (if getAllowedOrigins env = [] \<or> opt_or (req_origin req) [] \<in> set (getAllowedOrigins env)
      then Some (str_or (opt_or (req_origin req) []) ''*'')
      else None)"
  unfolding handler_text_respond
  by (subst text_respond_headers) (simp_all add: Let_def res_ops str_or_def)

lemma text_fixed_headers:
  "res_headers (sent (handler_text env p f req)) ''Vary'' = None"
  "res_headers (sent (handler_text env p f req)) ''Access-Control-Allow-Methods''
     = Some ''POST, OPTIONS''"
  "res_headers (sent (handler_text env p f req)) ''Access-Control-Allow-Headers''
     = Some ''Content-Type, X-Client-Token''"
  unfolding handler_text_respond
  by (subst text_respond_headers; simp add: Let_def res_ops)+

lemma image_allow_origin:
  "res_headers (sent (handler_image env p f req)) ''Access-Control-Allow-Origin'' =
     (if parseAllowed env = [] \<or> nullish_or (req_origin req) [] \<in> set (parseAllowed env)
         \<or> nullish_or (req_origin req) [] = ''null''
      then Some (str_or (nullish_or (req_origin req) []) ''*'')
      else None)"
  by (simp add: handler_image_respond image_respond_headers setCors_allow_origin
      new_response_def)

lemma image_fixed_headers:
  "res_headers (sent (handler_image env p f req)) ''Vary'' = Some ''Origin''"
  "res_headers (sent (handler_image env p f req)) ''Access-Control-Allow-Methods''
     = Some ''POST, OPTIONS''"
  "res_headers (sent (handler_image env p f req)) ''Access-Control-Allow-Headers''
     = Some ''Content-Type, X-Client-Token''"
  by (simp_all add: handler_image_respond image_respond_headers setCors_fixed)

text \<open>
  In the image-preview handler the \<^verbatim>\<open>null\<close> origin is allowed on every path, whatever the
  allow-list.
\<close>

lemma image_null_origin_allowed:
  "req_origin req = Some ''null'' \<Longrightarrow>
     res_headers (sent (handler_image env p f req)) ''Access-Control-Allow-Origin''
       = Some ''null''"
  by (simp add: image_allow_origin nullish_or_def str_or_def)

text \<open>What the cross-origin lines leave: no \<^verbatim>\<open>Content-Type\<close>, no body.\<close>

lemma text_cors_fresh:
  "res_headers (let allowOrigin = a;
        res = setHeader ''Access-Control-Allow-Methods'' ''POST, OPTIONS'' new_response;
        res = setHeader ''Access-Control-Allow-Headers'' ''Content-Type, X-Client-Token'' res
    in if allowOrigin \<noteq> []
       then setHeader ''Access-Control-Allow-Origin'' allowOrigin res else res)
     ''Content-Type'' = None"
  "res_body (let allowOrigin = a;
        res = setHeader ''Access-Control-Allow-Methods'' ''POST, OPTIONS'' new_response;
        res = setHeader ''Access-Control-Allow-Headers'' ''Content-Type, X-Client-Token'' res
    in if allowOrigin \<noteq> []
       then setHeader ''Access-Control-Allow-Origin'' allowOrigin res else res) = Unsent"
  by (simp_all add: Let_def res_ops)

lemma image_cors_fresh:
  "res_headers (setCors env new_response h) ''Content-Type'' = None"
  "res_body (setCors env new_response h) = Unsent"
  by (simp_all add: setCors_content_type setCors_body new_response_def)

subsection \<open>The paths of the second parts\<close>

text \<open>
  Each lemma takes the response as the cross-origin lines leave it: without
  \<^verbatim>\<open>Content-Type\<close> and unsent.
\<close>

lemma respond_preflight:
  assumes "req_method req = ''OPTIONS''"
  shows "text_respond env p f req a res
           = \<lparr>sent = end_response (status 204 res), fetched = None, threw = None\<rparr>"
    and "image_respond env p f req res
           = \<lparr>sent = end_response (status 204 res), fetched = None, threw = None\<rparr>"
  using assms by (simp_all add: text_respond_def image_respond_def)

lemma respond_missing_key:
  assumes "req_method req = ''POST''" and "opt_or (GEMINI_API_KEY env) [] = []"
    and "res_headers res ''Content-Type'' = None"
  shows "res_status (sent (text_respond env p f req a res)) = 500"
    and "res_body (sent (text_respond env p f req a res))
           = JsonBody (JObj [(''error'', JStr ''Server misconfigured: missing GEMINI_API_KEY'')])"
    and "fetched (text_respond env p f req a res) = None"
    and "res_status (sent (image_respond env p f req res)) = 500"
    and "res_body (sent (image_respond env p f req res))
           = JsonBody (JObj [(''error'', JStr ''Server misconfigured: missing GEMINI_API_KEY'')])"
    and "fetched (image_respond env p f req res) = None"
  using assms
  by (simp_all add: text_respond_def image_respond_def finish_def json_status json_fresh
      res_ops error_body_def)

lemma respond_unauthorized:
  assumes "req_method req = ''POST''" and "opt_or (GEMINI_API_KEY env) [] \<noteq> []"
    and "opt_or (CLIENT_TOKEN env) [] \<noteq> []"
    and "opt_or (req_client_token req) [] \<noteq> opt_or (CLIENT_TOKEN env) []"
    and "res_headers res ''Content-Type'' = None"
  shows "res_status (sent (text_respond env p f req a res)) = 401"
    and "res_body (sent (text_respond env p f req a res))
           = JsonBody (JObj [(''error'', JStr ''Unauthorized'')])"
    and "fetched (text_respond env p f req a res) = None"
    and "res_status (sent (image_respond env p f req res)) = 401"
    and "res_body (sent (image_respond env p f req res))
           = JsonBody (JObj [(''error'', JStr ''Unauthorized'')])"
    and "fetched (image_respond env p f req res) = None"
  using assms
  by (simp_all add: text_respond_def image_respond_def Let_def finish_def json_status
      json_fresh res_ops error_body_def)

lemma text_respond_no_token:
  assumes "req_method req = ''POST''" and "opt_or (CLIENT_TOKEN env) [] = []"
    and "res_headers res ''Content-Type'' = None" and "res_body res = Unsent"
  shows "res_body (sent (text_respond env p f req a res))
           \<noteq> JsonBody (JObj [(''error'', JStr ''Unauthorized'')])"
    and "res_status (sent (text_respond env p f req a res)) = 401
           \<longrightarrow> fetched (text_respond env p f req a res) \<noteq> None"
  using assms
  by (simp_all add: text_respond_def Let_def finish_def json_status send_status json_fresh
      json_body_neq send_body_neq res_ops error_body_def upstream_error_body_def
      split: handler_splits)

lemma image_respond_no_token:
  assumes "req_method req = ''POST''" and "opt_or (CLIENT_TOKEN env) [] = []"
    and "res_headers res ''Content-Type'' = None" and "res_body res = Unsent"
  shows "res_body (sent (image_respond env p f req res))
           \<noteq> JsonBody (JObj [(''error'', JStr ''Unauthorized'')])"
    and "res_status (sent (image_respond env p f req res)) = 401
           \<longrightarrow> fetched (image_respond env p f req res) \<noteq> None"
  using assms
  by (simp_all add: image_respond_def Let_def finish_def json_status send_status json_fresh
      json_body_neq send_body_neq setCors_status setCors_body setCors_content_type
      res_ops error_body_def upstream_error_body_def split: handler_splits)

subsection \<open>After admission\<close>

lemma admission_facts:
  assumes "passes_admission env p req apiKey parsed"
  shows "req_method req = ''POST''"
    and "opt_or (GEMINI_API_KEY env) [] = apiKey"
    and "apiKey \<noteq> []"
    and "(opt_or (CLIENT_TOKEN env) [] \<noteq> []
          \<and> opt_or (req_client_token req) [] \<noteq> opt_or (CLIENT_TOKEN env) []) = False"
    and "parse_body p (req_body req) = Some parsed"
  using assms by (auto simp: passes_admission_def opt_or_def str_or_def)

lemma admitted_text:
  assumes "passes_admission env p req apiKey parsed"
  shows "text_respond env p f req a res =
    (let call = upstream_call ENDPOINT_text apiKey (sanitize parsed)
     in case f call of
          Rejected err \<Rightarrow>
            finish (json req (upstream_error_body err) (status 502 res)) (Some call)
        | Resolved up \<Rightarrow>
           (case up_text up of
              Inl err \<Rightarrow>
                finish (json req (upstream_error_body err) (status 502 res)) (Some call)
            | Inr text \<Rightarrow>
                let res = status (up_status up) res;
                    res = setHeader ''Content-Type''
                            (opt_or (up_content_type up) ''application/json'') res;
                    res = (if a \<noteq> []
                           then setHeader ''Access-Control-Allow-Origin'' a res else res);
                    r = send req text res
                in (case snd r of
                      None \<Rightarrow> \<lparr>sent = fst r, fetched = Some call, threw = None\<rparr>
                    | Some err \<Rightarrow>
                        finish (json req (upstream_error_body err) (status 502 (fst r)))
                          (Some call))))"
  unfolding text_respond_def Let_def
  by (simp only: admission_facts [OF assms] if_True if_False option.case list.simps
      refl simp_thms)

lemma admitted_image:
  assumes "passes_admission env p req apiKey parsed"
  shows "image_respond env p f req res =
    (let call = upstream_call ENDPOINT_image apiKey (sanitize parsed)
     in case f call of
          Rejected err \<Rightarrow>
            finish (json req (upstream_error_body err)
                      (status 502 (setCors env res (req_origin req)))) (Some call)
        | Resolved up \<Rightarrow>
           (case up_text up of
              Inl err \<Rightarrow>
                finish (json req (upstream_error_body err)
                          (status 502 (setCors env res (req_origin req)))) (Some call)
            | Inr text \<Rightarrow>
                let r = send req text (setCors env
                          (setHeader ''Content-Type''
                             (opt_or (up_content_type up) ''application/json'')
                             (status (up_status up) res)) (req_origin req))
                in (case snd r of
                      None \<Rightarrow> \<lparr>sent = fst r, fetched = Some call, threw = None\<rparr>
                    | Some err \<Rightarrow>
                        finish (json req (upstream_error_body err)
                                  (status 502 (setCors env (fst r) (req_origin req))))
                          (Some call))))"
  unfolding image_respond_def Let_def
  by (simp only: admission_facts [OF assms] if_True if_False option.case list.simps
      refl simp_thms)

lemma admitted_fetched:
  assumes "passes_admission env p req apiKey parsed"
  shows "fetched (handler_text env p f req)
           = Some (upstream_call ENDPOINT_text apiKey (sanitize parsed))"
    and "fetched (handler_image env p f req)
           = Some (upstream_call ENDPOINT_image apiKey (sanitize parsed))"
  by (simp_all add: handler_text_respond handler_image_respond admitted_text [OF assms]
      admitted_image [OF assms] Let_def finish_def split: handler_splits)

text \<open>
  Admission is exactly the condition under which a handler reaches \<^verbatim>\<open>fetch\<close>.
\<close>

lemma not_admitted:
  assumes "\<not> (\<exists>k b. passes_admission env p req k b)"
  shows "fetched (text_respond env p f req a res) = None"
    and "fetched (image_respond env p f req res) = None"
proof -
  consider (not_post) "req_method req \<noteq> ''POST''"
    | (key) "req_method req = ''POST''" "opt_or (GEMINI_API_KEY env) [] = []"
    | (token) "req_method req = ''POST''" "opt_or (GEMINI_API_KEY env) [] \<noteq> []"
        "opt_or (CLIENT_TOKEN env) [] \<noteq> []"
        "opt_or (req_client_token req) [] \<noteq> opt_or (CLIENT_TOKEN env) []"
    | (body) "req_method req = ''POST''" "opt_or (GEMINI_API_KEY env) [] \<noteq> []"
        "\<not> (opt_or (CLIENT_TOKEN env) [] \<noteq> []
            \<and> opt_or (req_client_token req) [] \<noteq> opt_or (CLIENT_TOKEN env) [])"
        "parse_body p (req_body req) = None"
  proof (cases "parse_body p (req_body req)")
    case None
    then show ?thesis using that by blast
  next
    case (Some b)
    have "req_method req \<noteq> ''POST'' \<or> opt_or (GEMINI_API_KEY env) [] = []
        \<or> (opt_or (CLIENT_TOKEN env) [] \<noteq> []
            \<and> opt_or (req_client_token req) [] \<noteq> opt_or (CLIENT_TOKEN env) [])"
    proof (rule ccontr)
      assume n: "\<not> ?thesis"
      then obtain k where k: "GEMINI_API_KEY env = Some k" "k \<noteq> []"
        by (cases "GEMINI_API_KEY env") (auto simp: opt_or_def str_or_def)
      from n have "CLIENT_TOKEN env = None \<or> CLIENT_TOKEN env = Some []
          \<or> req_client_token req = CLIENT_TOKEN env"
        by (cases "CLIENT_TOKEN env"; cases "req_client_token req")
           (auto simp: opt_or_def str_or_def split: if_splits)
      with n k Some have "passes_admission env p req k b"
        by (simp add: passes_admission_def)
      with assms show False by blast
    qed
    then show ?thesis using that by blast
  qed
  then show "fetched (text_respond env p f req a res) = None"
    by cases (simp_all add: text_respond_def Let_def finish_def)
  from \<open>\<not> (\<exists>k b. passes_admission env p req k b)\<close> show "fetched (image_respond env p f req res) = None"
  proof -
    consider (not_post) "req_method req \<noteq> ''POST''"
      | (rest) "req_method req = ''POST''"
          "fetched (text_respond env p f req a res) = None"
      using \<open>fetched (text_respond env p f req a res) = None\<close> by blast
    then show ?thesis
    proof cases
      case not_post
      then show ?thesis by (simp add: image_respond_def finish_def)
    next
      case rest
      then show ?thesis
        by (simp add: image_respond_def text_respond_def Let_def finish_def
            split: handler_splits if_splits)
    qed
  qed
qed

lemma fetched_text_iff:
  "fetched (handler_text env p f req) \<noteq> None \<longleftrightarrow> (\<exists>k b. passes_admission env p req k b)"
proof
  assume fetched: "fetched (handler_text env p f req) \<noteq> None"
  show "\<exists>k b. passes_admission env p req k b"
  proof (rule ccontr)
    assume "\<not> (\<exists>k b. passes_admission env p req k b)"
    then have "fetched (handler_text env p f req) = None"
      unfolding handler_text_respond by (rule not_admitted(1))
    with fetched show False by simp
  qed
next
  assume "\<exists>k b. passes_admission env p req k b"
  then obtain k b where "passes_admission env p req k b" by blast
  then show "fetched (handler_text env p f req) \<noteq> None"
    by (simp add: admitted_fetched(1))
qed

lemma fetched_image_iff:
  "fetched (handler_image env p f req) \<noteq> None \<longleftrightarrow> (\<exists>k b. passes_admission env p req k b)"
proof
  assume fetched: "fetched (handler_image env p f req) \<noteq> None"
  show "\<exists>k b. passes_admission env p req k b"
  proof (rule ccontr)
    assume "\<not> (\<exists>k b. passes_admission env p req k b)"
    then have "fetched (handler_image env p f req) = None"
      unfolding handler_image_respond by (rule not_admitted(2))
    with fetched show False by simp
  qed
next
  assume "\<exists>k b. passes_admission env p req k b"
  then obtain k b where "passes_admission env p req k b" by blast
  then show "fetched (handler_image env p f req) \<noteq> None"
    by (simp add: admitted_fetched(2))
qed



text \<open>The response to an admitted request when \<^verbatim>\<open>fetch\<close> rejects.\<close>

lemma rejected_respond:
  assumes "passes_admission env p req apiKey parsed"
    and "res_headers res ''Content-Type'' = None"
  shows "f (upstream_call ENDPOINT_text apiKey (sanitize parsed)) = Rejected err \<longrightarrow>
           res_status (sent (text_respond env p f req a res)) = 502
         \<and> res_body (sent (text_respond env p f req a res))
             = JsonBody (JObj [(''error'', JStr ''Upstream fetch failed''),
                               (''detail'', JStr (error_detail err))])"
    and "f (upstream_call ENDPOINT_image apiKey (sanitize parsed)) = Rejected err \<longrightarrow>
           res_status (sent (image_respond env p f req res)) = 502
         \<and> res_body (sent (image_respond env p f req res))
             = JsonBody (JObj [(''error'', JStr ''Upstream fetch failed''),
                               (''detail'', JStr (error_detail err))])"
  using assms(2) admission_facts(1) [OF assms(1)]
  by (simp_all add: admitted_text [OF assms(1)] admitted_image [OF assms(1)] Let_def
      finish_def json_status json_fresh setCors_content_type setCors_status res_ops
      upstream_error_body_def)

lemma rejected_handlers:
  assumes "passes_admission env p req apiKey parsed"
  shows "f (upstream_call ENDPOINT_text apiKey (sanitize parsed)) = Rejected err \<longrightarrow>
           res_status (sent (handler_text env p f req)) = 502
         \<and> res_body (sent (handler_text env p f req))
             = JsonBody (JObj [(''error'', JStr ''Upstream fetch failed''),
                               (''detail'', JStr (error_detail err))])"
    and "f (upstream_call ENDPOINT_image apiKey (sanitize parsed)) = Rejected err \<longrightarrow>
           res_status (sent (handler_image env p f req)) = 502
         \<and> res_body (sent (handler_image env p f req))
             = JsonBody (JObj [(''error'', JStr ''Upstream fetch failed''),
                               (''detail'', JStr (error_detail err))])"
  unfolding handler_text_respond handler_image_respond
  by (rule rejected_respond(1) [where f = f, OF assms text_cors_fresh(1)]
      rejected_respond(2) [where f = f, OF assms image_cors_fresh(1)])+

subsection \<open>The sanitizer\<close>

lemma sanitize_falsy:
  "\<not> truthy (get_prop (get_prop b ''generationConfig'') ''response_mime_type'')
     \<Longrightarrow> sanitize b = b"
  by (simp add: sanitize_def get_prop_opt_get)

lemma sanitize_truthy:
  assumes "truthy (get_prop (get_prop b ''generationConfig'') ''response_mime_type'')"
  obtains kvs g where "b = JObj kvs" and "map_of kvs ''generationConfig'' = Some (JObj g)"
    and "sanitize b = JObj (AList.update ''generationConfig''
            (JObj (AList.delete ''response_mime_type'' g)) kvs)"
proof -
  from assms obtain kvs where b: "b = JObj kvs" by (cases b) auto
  with assms obtain v where v: "map_of kvs ''generationConfig'' = Some v"
    by (cases "map_of kvs ''generationConfig''") auto
  with assms b obtain g where g: "v = JObj g" by (cases v) auto
  show thesis
    using assms b v g that [of kvs g] by (simp add: sanitize_def get_prop_opt_get)
qed

section \<open>Cross-origin headers\<close>

text \<open>
  C1. With a non-empty allow-list and the request origin \<^verbatim>\<open>null\<close>, the response is to carry
  \<^verbatim>\<open>Access-Control-Allow-Origin: null\<close> in both handlers. The image-preview handler does
  so (\<open>image_null_origin_allowed\<close>). The text handler tests membership in the list only:
  on the preflight request below, with the allow-list \<^verbatim>\<open>https://a.example\<close>, it sends
  no such header, where the image-preview handler sends \<^verbatim>\<open>null\<close>.
\<close>

theorem text_handler_null_origin_not_allowed:
  "getAllowedOrigins
     \<lparr>ALLOWED_ORIGINS = Some ''https://a.example'', GEMINI_API_KEY = Some ''k'',
      CLIENT_TOKEN = None\<rparr> = [''https://a.example'']
 \<and> res_headers (sent (handler_text
       \<lparr>ALLOWED_ORIGINS = Some ''https://a.example'', GEMINI_API_KEY = Some ''k'',
        CLIENT_TOKEN = None\<rparr>
       JSON_parse_example fetch_echo
       \<lparr>req_method = ''OPTIONS'', req_origin = Some ''null'', req_client_token = None,
        req_body = JUndefined\<rparr>)) ''Access-Control-Allow-Origin'' = None
 \<and> res_headers (sent (handler_image
       \<lparr>ALLOWED_ORIGINS = Some ''https://a.example'', GEMINI_API_KEY = Some ''k'',
        CLIENT_TOKEN = None\<rparr>
       JSON_parse_example fetch_echo
       \<lparr>req_method = ''OPTIONS'', req_origin = Some ''null'', req_client_token = None,
        req_body = JUndefined\<rparr>)) ''Access-Control-Allow-Origin'' = Some ''null''"
  by (simp add: text_allow_origin image_allow_origin parseAllowed_eq getAllowedOrigins_def
      opt_or_def str_or_def nullish_or_def trim_def is_space_def)

text \<open>
  C3. Every response is to carry \<^verbatim>\<open>Access-Control-Allow-Methods\<close>,
  \<^verbatim>\<open>Access-Control-Allow-Headers\<close> and \<^verbatim>\<open>Vary: Origin\<close>. Both handlers send the first two
  on every path and the image-preview handler sends \<^verbatim>\<open>Vary\<close> as well
  (\<open>text_fixed_headers\<close>, \<open>image_fixed_headers\<close>); the text handler never sets
  \<^verbatim>\<open>Vary\<close>, as on this preflight request.
\<close>

theorem text_handler_sends_no_vary:
  "res_headers (sent (handler_text
       \<lparr>ALLOWED_ORIGINS = None, GEMINI_API_KEY = Some ''k'', CLIENT_TOKEN = None\<rparr>
       JSON_parse_example fetch_echo
       \<lparr>req_method = ''OPTIONS'', req_origin = Some ''https://a.example'',
        req_client_token = None, req_body = JUndefined\<rparr>)) ''Vary'' = None
 \<and> res_headers (sent (handler_image
       \<lparr>ALLOWED_ORIGINS = None, GEMINI_API_KEY = Some ''k'', CLIENT_TOKEN = None\<rparr>
       JSON_parse_example fetch_echo
       \<lparr>req_method = ''OPTIONS'', req_origin = Some ''https://a.example'',
        req_client_token = None, req_body = JUndefined\<rparr>)) ''Vary'' = Some ''Origin''"
  by (simp add: text_fixed_headers image_fixed_headers)

text \<open>
  C8. With a non-empty allow-list, a request whose \<^verbatim>\<open>Origin\<close> is missing, or is neither
  listed nor \<^verbatim>\<open>null\<close>, gets no \<^verbatim>\<open>Access-Control-Allow-Origin\<close> header, from either handler
  and on every path.
\<close>

theorem denied_origin_no_allow_origin:
  assumes "getAllowedOrigins env \<noteq> []"
    and "\<forall>v. req_origin req = Some v \<longrightarrow> v \<notin> set (getAllowedOrigins env) \<and> v \<noteq> ''null''"
  shows "res_headers (sent (handler_text env p f req)) ''Access-Control-Allow-Origin'' = None
       \<and> res_headers (sent (handler_image env p f req)) ''Access-Control-Allow-Origin'' = None"
  using assms empty_not_allowed [of env]
  by (cases "req_origin req")
     (simp_all add: text_allow_origin image_allow_origin parseAllowed_eq opt_or_def str_or_def
        nullish_or_def)

text \<open>
  The theorem at an admitted \<^verbatim>\<open>POST\<close> from \<^verbatim>\<open>https://b.example\<close> that the upstream answers,
  the allow-list being \<^verbatim>\<open>https://a.example\<close>.
\<close>

theorem denied_origin_no_allow_origin_witness:
  "res_headers (sent (handler_text
       \<lparr>ALLOWED_ORIGINS = Some ''https://a.example'', GEMINI_API_KEY = Some ''k'',
        CLIENT_TOKEN = None\<rparr>
       JSON_parse_example fetch_echo
       \<lparr>req_method = ''POST'', req_origin = Some ''https://b.example'',
        req_client_token = None, req_body = JUndefined\<rparr>)) ''Access-Control-Allow-Origin'' = None
 \<and> res_headers (sent (handler_image
       \<lparr>ALLOWED_ORIGINS = Some ''https://a.example'', GEMINI_API_KEY = Some ''k'',
        CLIENT_TOKEN = None\<rparr>
       JSON_parse_example fetch_echo
       \<lparr>req_method = ''POST'', req_origin = Some ''https://b.example'',
        req_client_token = None, req_body = JUndefined\<rparr>)) ''Access-Control-Allow-Origin'' = None"
proof -
  have l: "getAllowedOrigins
      \<lparr>ALLOWED_ORIGINS = Some ''https://a.example'', GEMINI_API_KEY = Some ''k'',
       CLIENT_TOKEN = None\<rparr> = [''https://a.example'']"
    by (simp add: getAllowedOrigins_def opt_or_def str_or_def trim_def is_space_def)
  show ?thesis
    by (rule denied_origin_no_allow_origin) (simp_all add: l)
qed

section \<open>Preflight and admission\<close>

text \<open>
  A request with method \<^verbatim>\<open>OPTIONS\<close> is answered with status 204 and no body by both
  handlers, whatever the environment, the headers and the body of the request; nothing
  is fetched and nothing thrown.
\<close>

lemma preflight_204:
  assumes "req_method req = ''OPTIONS''"
  shows "res_status (sent (handler_text env p f req)) = 204
       \<and> res_body (sent (handler_text env p f req)) = NoBody
       \<and> fetched (handler_text env p f req) = None
       \<and> threw (handler_text env p f req) = None
       \<and> res_status (sent (handler_image env p f req)) = 204
       \<and> res_body (sent (handler_image env p f req)) = NoBody
       \<and> fetched (handler_image env p f req) = None
       \<and> threw (handler_image env p f req) = None"
  by (simp add: handler_text_respond handler_image_respond respond_preflight [OF assms]
      status_def end_response_def)

text \<open>
  C9. A preflight request is to get status 204, an empty body and the CORS headers,
  whatever the configuration. Status and body are as claimed in both handlers
  (\<open>preflight_204\<close>), and the image-preview handler sends all of
  \<^verbatim>\<open>Access-Control-Allow-Origin\<close>, \<^verbatim>\<open>Access-Control-Allow-Methods\<close>,
  \<^verbatim>\<open>Access-Control-Allow-Headers\<close> and \<^verbatim>\<open>Vary\<close>. The text handler does not: on the
  preflight request below, from the origin \<^verbatim>\<open>null\<close> with the allow-list
  \<^verbatim>\<open>https://a.example\<close>, no API key and a client token required, its response has
  neither \<^verbatim>\<open>Access-Control-Allow-Origin\<close> nor \<^verbatim>\<open>Vary\<close>.
\<close>

theorem text_handler_preflight_lacks_cors_headers:
  "res_status (sent (handler_text
       \<lparr>ALLOWED_ORIGINS = Some ''https://a.example'', GEMINI_API_KEY = None,
        CLIENT_TOKEN = Some ''t''\<rparr>
       JSON_parse_example fetch_unreachable
       \<lparr>req_method = ''OPTIONS'', req_origin = Some ''null'', req_client_token = None,
        req_body = JUndefined\<rparr>)) = 204
 \<and> res_body (sent (handler_text
       \<lparr>ALLOWED_ORIGINS = Some ''https://a.example'', GEMINI_API_KEY = None,
        CLIENT_TOKEN = Some ''t''\<rparr>
       JSON_parse_example fetch_unreachable
       \<lparr>req_method = ''OPTIONS'', req_origin = Some ''null'', req_client_token = None,
        req_body = JUndefined\<rparr>)) = NoBody
 \<and> res_headers (sent (handler_text
       \<lparr>ALLOWED_ORIGINS = Some ''https://a.example'', GEMINI_API_KEY = None,
        CLIENT_TOKEN = Some ''t''\<rparr>
       JSON_parse_example fetch_unreachable
       \<lparr>req_method = ''OPTIONS'', req_origin = Some ''null'', req_client_token = None,
        req_body = JUndefined\<rparr>)) ''Access-Control-Allow-Origin'' = None
 \<and> res_headers (sent (handler_text
       \<lparr>ALLOWED_ORIGINS = Some ''https://a.example'', GEMINI_API_KEY = None,
        CLIENT_TOKEN = Some ''t''\<rparr>
       JSON_parse_example fetch_unreachable
       \<lparr>req_method = ''OPTIONS'', req_origin = Some ''null'', req_client_token = None,
        req_body = JUndefined\<rparr>)) ''Vary'' = None
 \<and> res_status (sent (handler_image
       \<lparr>ALLOWED_ORIGINS = Some ''https://a.example'', GEMINI_API_KEY = None,
        CLIENT_TOKEN = Some ''t''\<rparr>
       JSON_parse_example fetch_unreachable
       \<lparr>req_method = ''OPTIONS'', req_origin = Some ''null'', req_client_token = None,
        req_body = JUndefined\<rparr>)) = 204
 \<and> res_body (sent (handler_image
       \<lparr>ALLOWED_ORIGINS = Some ''https://a.example'', GEMINI_API_KEY = None,
        CLIENT_TOKEN = Some ''t''\<rparr>
       JSON_parse_example fetch_unreachable
       \<lparr>req_method = ''OPTIONS'', req_origin = Some ''null'', req_client_token = None,
        req_body = JUndefined\<rparr>)) = NoBody
 \<and> res_headers (sent (handler_image
       \<lparr>ALLOWED_ORIGINS = Some ''https://a.example'', GEMINI_API_KEY = None,
        CLIENT_TOKEN = Some ''t''\<rparr>
       JSON_parse_example fetch_unreachable
       \<lparr>req_method = ''OPTIONS'', req_origin = Some ''null'', req_client_token = None,
        req_body = JUndefined\<rparr>)) ''Access-Control-Allow-Origin'' = Some ''null''
 \<and> res_headers (sent (handler_image
       \<lparr>ALLOWED_ORIGINS = Some ''https://a.example'', GEMINI_API_KEY = None,
        CLIENT_TOKEN = Some ''t''\<rparr>
       JSON_parse_example fetch_unreachable
       \<lparr>req_method = ''OPTIONS'', req_origin = Some ''null'', req_client_token = None,
        req_body = JUndefined\<rparr>)) ''Vary'' = Some ''Origin''"
proof -
  have l: "getAllowedOrigins
      \<lparr>ALLOWED_ORIGINS = Some ''https://a.example'', GEMINI_API_KEY = None,
       CLIENT_TOKEN = Some ''t''\<rparr> = [''https://a.example'']"
    by (simp add: getAllowedOrigins_def opt_or_def str_or_def trim_def is_space_def)
  have m: "req_method \<lparr>req_method = ''OPTIONS'', req_origin = Some ''null'',
      req_client_token = None, req_body = JUndefined\<rparr> = ''OPTIONS''"
    by simp
  show ?thesis
    by (simp add: preflight_204 [OF m] text_fixed_headers image_fixed_headers
        text_allow_origin image_allow_origin parseAllowed_eq l opt_or_def str_or_def
        nullish_or_def)
qed

text \<open>
  C6. A \<^verbatim>\<open>POST\<close> while \<^verbatim>\<open>GEMINI_API_KEY\<close> is not set is answered with status 500 and the
  body \<^verbatim>\<open>{error: "Server misconfigured: missing GEMINI_API_KEY"}\<close>, and nothing is fetched.
  The body is this constant for every request and every environment without the key, so
  it holds nothing of the one secret that may be configured, the client token: changing
  the token leaves the body as it is.
\<close>

theorem missing_api_key_500:
  assumes "req_method req = ''POST''" and "GEMINI_API_KEY env = None"
  shows "res_status (sent (handler_text env p f req)) = 500
       \<and> res_body (sent (handler_text env p f req))
           = JsonBody (JObj [(''error'', JStr ''Server misconfigured: missing GEMINI_API_KEY'')])
       \<and> fetched (handler_text env p f req) = None
       \<and> res_status (sent (handler_image env p f req)) = 500
       \<and> res_body (sent (handler_image env p f req))
           = JsonBody (JObj [(''error'', JStr ''Server misconfigured: missing GEMINI_API_KEY'')])
       \<and> fetched (handler_image env p f req) = None
       \<and> res_body (sent (handler_text (env\<lparr>CLIENT_TOKEN := t\<rparr>) p f req))
           = res_body (sent (handler_text env p f req))
       \<and> res_body (sent (handler_image (env\<lparr>CLIENT_TOKEN := t\<rparr>) p f req))
           = res_body (sent (handler_image env p f req))"
proof -
  from assms(2) have k: "opt_or (GEMINI_API_KEY env) [] = []"
    and k': "opt_or (GEMINI_API_KEY (env\<lparr>CLIENT_TOKEN := t\<rparr>)) [] = []"
    by (simp_all add: opt_or_def)
  show ?thesis
    unfolding handler_text_respond handler_image_respond
    by (simp only: respond_missing_key [OF assms(1) k text_cors_fresh(1)]
        respond_missing_key [OF assms(1) k image_cors_fresh(1)]
        respond_missing_key [OF assms(1) k' text_cors_fresh(1)]
        respond_missing_key [OF assms(1) k' image_cors_fresh(1)] simp_thms)
qed

text \<open>The theorem at a \<^verbatim>\<open>POST\<close> with a body, no API key being set.\<close>

theorem missing_api_key_500_witness:
  "res_status (sent (handler_text
       \<lparr>ALLOWED_ORIGINS = None, GEMINI_API_KEY = None, CLIENT_TOKEN = Some ''t''\<rparr>
       JSON_parse_example fetch_echo
       \<lparr>req_method = ''POST'', req_origin = None, req_client_token = Some ''t'',
        req_body = JObj []\<rparr>)) = 500
 \<and> res_body (sent (handler_image
       \<lparr>ALLOWED_ORIGINS = None, GEMINI_API_KEY = None, CLIENT_TOKEN = Some ''t''\<rparr>
       JSON_parse_example fetch_echo
       \<lparr>req_method = ''POST'', req_origin = None, req_client_token = Some ''t'',
        req_body = JObj []\<rparr>))
     = JsonBody (JObj [(''error'', JStr ''Server misconfigured: missing GEMINI_API_KEY'')])"
proof -
  have m: "req_method \<lparr>req_method = ''POST'', req_origin = None,
        req_client_token = Some ''t'', req_body = JObj []\<rparr> = ''POST''"
    by simp
  have k: "GEMINI_API_KEY \<lparr>ALLOWED_ORIGINS = None, GEMINI_API_KEY = None,
        CLIENT_TOKEN = Some ''t''\<rparr> = None"
    by simp
  show ?thesis
    using missing_api_key_500 [OF m k] by blast
qed

text \<open>
  A \<^verbatim>\<open>POST\<close> without the required token, while \<^verbatim>\<open>GEMINI_API_KEY\<close> is not set either: the
  check of the key comes first, and the answer is 500, not 401.
\<close>

theorem missing_api_key_precedes_token_check:
  "req_method \<lparr>req_method = ''POST'', req_origin = None, req_client_token = None,
        req_body = JObj []\<rparr> = ''POST''
 \<and> CLIENT_TOKEN \<lparr>ALLOWED_ORIGINS = None, GEMINI_API_KEY = None,
        CLIENT_TOKEN = Some ''t''\<rparr> = Some ''t''
 \<and> res_status (sent (handler_text
       \<lparr>ALLOWED_ORIGINS = None, GEMINI_API_KEY = None, CLIENT_TOKEN = Some ''t''\<rparr>
       JSON_parse_example fetch_echo
       \<lparr>req_method = ''POST'', req_origin = None, req_client_token = None,
        req_body = JObj []\<rparr>)) = 500
 \<and> res_status (sent (handler_image
       \<lparr>ALLOWED_ORIGINS = None, GEMINI_API_KEY = None, CLIENT_TOKEN = Some ''t''\<rparr>
       JSON_parse_example fetch_echo
       \<lparr>req_method = ''POST'', req_origin = None, req_client_token = None,
        req_body = JObj []\<rparr>)) = 500
 \<and> res_status (sent (handler_text
       \<lparr>ALLOWED_ORIGINS = None, GEMINI_API_KEY = None, CLIENT_TOKEN = Some ''t''\<rparr>
       JSON_parse_example fetch_echo
       \<lparr>req_method = ''POST'', req_origin = None, req_client_token = None,
        req_body = JObj []\<rparr>)) \<noteq> 401"
proof -
  have m: "req_method \<lparr>req_method = ''POST'', req_origin = None, req_client_token = None,
        req_body = JObj []\<rparr> = ''POST''"
    by simp
  have k: "opt_or (GEMINI_API_KEY \<lparr>ALLOWED_ORIGINS = None, GEMINI_API_KEY = None,
        CLIENT_TOKEN = Some ''t''\<rparr>) [] = []"
    by (simp add: opt_or_def)
  have "res_status (sent (handler_text
       \<lparr>ALLOWED_ORIGINS = None, GEMINI_API_KEY = None, CLIENT_TOKEN = Some ''t''\<rparr>
       JSON_parse_example fetch_echo
       \<lparr>req_method = ''POST'', req_origin = None, req_client_token = None,
        req_body = JObj []\<rparr>)) = 500"
    unfolding handler_text_respond
    by (rule respond_missing_key(1) [OF m k text_cors_fresh(1)])
  moreover have "res_status (sent (handler_image
       \<lparr>ALLOWED_ORIGINS = None, GEMINI_API_KEY = None, CLIENT_TOKEN = Some ''t''\<rparr>
       JSON_parse_example fetch_echo
       \<lparr>req_method = ''POST'', req_origin = None, req_client_token = None,
        req_body = JObj []\<rparr>)) = 500"
    unfolding handler_image_respond
    by (rule respond_missing_key(4) [OF m k image_cors_fresh(1)])
  ultimately show ?thesis by simp
qed

text \<open>
  C7, amended. For a \<^verbatim>\<open>POST\<close> while \<^verbatim>\<open>GEMINI_API_KEY\<close> is set: when \<^verbatim>\<open>CLIENT_TOKEN\<close> is a
  non-empty string and the \<^verbatim>\<open>X-Client-Token\<close> header is missing or differs from it, the
  answer is 401 with the body \<^verbatim>\<open>{error: "Unauthorized"}\<close> and nothing is fetched; when
  \<^verbatim>\<open>CLIENT_TOKEN\<close> is not set or empty, no request gets that body, and a status 401 can
  only be the status of an upstream response that is relayed.
\<close>

theorem client_token_checked_after_api_key:
  assumes "req_method req = ''POST''" and "opt_or (GEMINI_API_KEY env) [] \<noteq> []"
  shows "(\<forall>t. CLIENT_TOKEN env = Some t \<and> t \<noteq> [] \<and> req_client_token req \<noteq> Some t \<longrightarrow>
            res_status (sent (handler_text env p f req)) = 401
          \<and> res_body (sent (handler_text env p f req))
              = JsonBody (JObj [(''error'', JStr ''Unauthorized'')])
          \<and> fetched (handler_text env p f req) = None
          \<and> res_status (sent (handler_image env p f req)) = 401
          \<and> res_body (sent (handler_image env p f req))
              = JsonBody (JObj [(''error'', JStr ''Unauthorized'')])
          \<and> fetched (handler_image env p f req) = None)
       \<and> (CLIENT_TOKEN env = None \<or> CLIENT_TOKEN env = Some [] \<longrightarrow>
            res_body (sent (handler_text env p f req))
              \<noteq> JsonBody (JObj [(''error'', JStr ''Unauthorized'')])
          \<and> res_body (sent (handler_image env p f req))
              \<noteq> JsonBody (JObj [(''error'', JStr ''Unauthorized'')])
          \<and> (res_status (sent (handler_text env p f req)) = 401
                \<longrightarrow> fetched (handler_text env p f req) \<noteq> None)
          \<and> (res_status (sent (handler_image env p f req)) = 401
                \<longrightarrow> fetched (handler_image env p f req) \<noteq> None))"
proof (intro conjI allI impI)
  fix t
  assume t: "CLIENT_TOKEN env = Some t \<and> t \<noteq> [] \<and> req_client_token req \<noteq> Some t"
  then have mismatch: "opt_or (CLIENT_TOKEN env) [] \<noteq> []"
      "opt_or (req_client_token req) [] \<noteq> opt_or (CLIENT_TOKEN env) []"
    by (auto simp: opt_or_def str_or_def split: option.splits)
  note tx = respond_unauthorized [OF assms mismatch text_cors_fresh(1)]
  note im = respond_unauthorized [OF assms mismatch image_cors_fresh(1)]
  show "res_status (sent (handler_text env p f req)) = 401"
    "res_body (sent (handler_text env p f req))
       = JsonBody (JObj [(''error'', JStr ''Unauthorized'')])"
    "fetched (handler_text env p f req) = None"
    unfolding handler_text_respond by (rule tx(1) tx(2) tx(3))+
  show "res_status (sent (handler_image env p f req)) = 401"
    "res_body (sent (handler_image env p f req))
       = JsonBody (JObj [(''error'', JStr ''Unauthorized'')])"
    "fetched (handler_image env p f req) = None"
    unfolding handler_image_respond by (rule im(4) im(5) im(6))+
next
  assume "CLIENT_TOKEN env = None \<or> CLIENT_TOKEN env = Some []"
  then have none: "opt_or (CLIENT_TOKEN env) [] = []"
    by (auto simp: opt_or_def str_or_def)
  note tx = text_respond_no_token [OF assms(1) none text_cors_fresh]
  note im = image_respond_no_token [OF assms(1) none image_cors_fresh]
  show "res_body (sent (handler_text env p f req))
          \<noteq> JsonBody (JObj [(''error'', JStr ''Unauthorized'')])"
    unfolding handler_text_respond by (rule tx(1))
  show "res_body (sent (handler_image env p f req))
          \<noteq> JsonBody (JObj [(''error'', JStr ''Unauthorized'')])"
    unfolding handler_image_respond by (rule im(1))
  show "fetched (handler_text env p f req) \<noteq> None"
    if "res_status (sent (handler_text env p f req)) = 401"
    using that tx(2) unfolding handler_text_respond by blast
  show "fetched (handler_image env p f req) \<noteq> None"
    if "res_status (sent (handler_image env p f req)) = 401"
    using that im(2) unfolding handler_image_respond by blast
qed

text \<open>
  The theorem at a \<^verbatim>\<open>POST\<close> with the wrong token, and at a \<^verbatim>\<open>POST\<close> without token when
  none is required.
\<close>

theorem client_token_checked_after_api_key_witness:
  "res_status (sent (handler_text
       \<lparr>ALLOWED_ORIGINS = None, GEMINI_API_KEY = Some ''k'', CLIENT_TOKEN = Some ''t''\<rparr>
       JSON_parse_example fetch_echo
       \<lparr>req_method = ''POST'', req_origin = None, req_client_token = Some ''T'',
        req_body = JObj []\<rparr>)) = 401
 \<and> res_body (sent (handler_image
       \<lparr>ALLOWED_ORIGINS = None, GEMINI_API_KEY = Some ''k'', CLIENT_TOKEN = None\<rparr>
       JSON_parse_example fetch_echo
       \<lparr>req_method = ''POST'', req_origin = None, req_client_token = None,
        req_body = JObj []\<rparr>)) \<noteq> JsonBody (JObj [(''error'', JStr ''Unauthorized'')])"
proof -
  have k: "opt_or (GEMINI_API_KEY \<lparr>ALLOWED_ORIGINS = None, GEMINI_API_KEY = Some ''k'',
        CLIENT_TOKEN = Some ''t''\<rparr>) [] \<noteq> []"
    and k': "opt_or (GEMINI_API_KEY \<lparr>ALLOWED_ORIGINS = None, GEMINI_API_KEY = Some ''k'',
        CLIENT_TOKEN = None\<rparr>) [] \<noteq> []"
    by (simp_all add: opt_or_def str_or_def)
  have m: "req_method \<lparr>req_method = ''POST'', req_origin = None,
        req_client_token = Some ''T'', req_body = JObj []\<rparr> = ''POST''"
    and m': "req_method \<lparr>req_method = ''POST'', req_origin = None,
        req_client_token = None, req_body = JObj []\<rparr> = ''POST''"
    by simp_all
  show ?thesis
    using client_token_checked_after_api_key [OF m k, of JSON_parse_example fetch_echo]
      client_token_checked_after_api_key [OF m' k', of JSON_parse_example fetch_echo]
    by simp
qed

section \<open>Sanitizing and forwarding the body\<close>

text \<open>
  A body whose \<^verbatim>\<open>generationConfig.response_mime_type\<close> is the empty string: the field is
  present, its value is falsy, and the sanitizer leaves it where it is. The text handler
  forwards the body with the field.
\<close>

theorem sanitize_keeps_falsy_mime_type:
  "has_prop (get_prop (JObj [(''generationConfig'', JObj [(''response_mime_type'', JStr [])])])
              ''generationConfig'') ''response_mime_type''
 \<and> has_prop (get_prop
       (sanitize (JObj [(''generationConfig'', JObj [(''response_mime_type'', JStr [])])]))
       ''generationConfig'') ''response_mime_type''
 \<and> fetched (handler_text
       \<lparr>ALLOWED_ORIGINS = None, GEMINI_API_KEY = Some ''k'', CLIENT_TOKEN = None\<rparr>
       JSON_parse_example fetch_echo
       \<lparr>req_method = ''POST'', req_origin = None, req_client_token = None,
        req_body = JObj [(''generationConfig'', JObj [(''response_mime_type'', JStr [])])]\<rparr>)
     = Some (upstream_call ENDPOINT_text ''k''
         (JObj [(''generationConfig'', JObj [(''response_mime_type'', JStr [])])]))"
proof -
  have s: "sanitize (JObj [(''generationConfig'', JObj [(''response_mime_type'', JStr [])])])
      = JObj [(''generationConfig'', JObj [(''response_mime_type'', JStr [])])]"
    by (simp add: sanitize_def opt_get_def)
  have a: "passes_admission
      \<lparr>ALLOWED_ORIGINS = None, GEMINI_API_KEY = Some ''k'', CLIENT_TOKEN = None\<rparr>
      JSON_parse_example
      \<lparr>req_method = ''POST'', req_origin = None, req_client_token = None,
       req_body = JObj [(''generationConfig'', JObj [(''response_mime_type'', JStr [])])]\<rparr>
      ''k'' (JObj [(''generationConfig'', JObj [(''response_mime_type'', JStr [])])])"
    by (simp add: passes_admission_def parse_body_def)
  show ?thesis
    using admitted_fetched(1) [OF a, of fetch_echo] by (simp add: s)
qed

text \<open>
  C2, amended. The sanitizer removes \<^verbatim>\<open>generationConfig.response_mime_type\<close> when the
  field holds a truthy value: then the field is gone, every other property of
  \<^verbatim>\<open>generationConfig\<close> and of the body reads as before, and the same properties exist.
  When the field holds a falsy value (the empty string, \<^verbatim>\<open>null\<close>, \<^verbatim>\<open>false\<close>, \<^verbatim>\<open>0\<close>), or the
  field or \<^verbatim>\<open>generationConfig\<close> is missing, or the body is no object, the body is left as
  it is. The sanitizer is total: no body makes it fail. What an admitted request forwards
  is the serialisation of the sanitized body.
\<close>

theorem sanitize_removes_truthy_mime_type:
  "(truthy (get_prop (get_prop b ''generationConfig'') ''response_mime_type'') \<longrightarrow>
       \<not> has_prop (get_prop (sanitize b) ''generationConfig'') ''response_mime_type''
     \<and> (\<forall>k. k \<noteq> ''response_mime_type'' \<longrightarrow>
            get_prop (get_prop (sanitize b) ''generationConfig'') k
              = get_prop (get_prop b ''generationConfig'') k
          \<and> has_prop (get_prop (sanitize b) ''generationConfig'') k
              = has_prop (get_prop b ''generationConfig'') k)
     \<and> (\<forall>k. k \<noteq> ''generationConfig'' \<longrightarrow> get_prop (sanitize b) k = get_prop b k)
     \<and> (\<forall>k. has_prop (sanitize b) k = has_prop b k))
 \<and> (\<not> truthy (get_prop (get_prop b ''generationConfig'') ''response_mime_type'') \<longrightarrow>
       sanitize b = b)
 \<and> (passes_admission env p req apiKey b \<longrightarrow>
       fetched (handler_text env p f req)
         = Some (upstream_call ENDPOINT_text apiKey (sanitize b))
     \<and> fetched (handler_image env p f req)
         = Some (upstream_call ENDPOINT_image apiKey (sanitize b))
     \<and> fc_body (upstream_call ENDPOINT_text apiKey (sanitize b)) = JSON_stringify (sanitize b)
     \<and> fc_body (upstream_call ENDPOINT_image apiKey (sanitize b)) = JSON_stringify (sanitize b))"
proof (intro conjI impI)
  assume t: "truthy (get_prop (get_prop b ''generationConfig'') ''response_mime_type'')"
  then obtain kvs g where b: "b = JObj kvs"
    and g: "map_of kvs ''generationConfig'' = Some (JObj g)"
    and s: "sanitize b = JObj (AList.update ''generationConfig''
              (JObj (AList.delete ''response_mime_type'' g)) kvs)"
    by (rule sanitize_truthy)
  note s' = s [unfolded b]
  have gc: "get_prop (sanitize b) ''generationConfig''
      = JObj (AList.delete ''response_mime_type'' g)"
    by (simp add: s update_conv')
  have gc0: "get_prop b ''generationConfig'' = JObj g"
    by (simp add: b g)
  show "\<not> has_prop (get_prop (sanitize b) ''generationConfig'') ''response_mime_type''"
    by (simp add: gc delete_notin_dom)
  show "\<forall>k. k \<noteq> ''response_mime_type'' \<longrightarrow>
            get_prop (get_prop (sanitize b) ''generationConfig'') k
              = get_prop (get_prop b ''generationConfig'') k
          \<and> has_prop (get_prop (sanitize b) ''generationConfig'') k
              = has_prop (get_prop b ''generationConfig'') k"
    by (simp add: gc gc0 delete_conv' keys_delete)
  show "\<forall>k. k \<noteq> ''generationConfig'' \<longrightarrow> get_prop (sanitize b) k = get_prop b k"
    by (simp add: s' b update_conv')
  have "''generationConfig'' \<in> fst ` set kvs"
    using g by (metis domI dom_map_of_conv_image_fst)
  then show "\<forall>k. has_prop (sanitize b) k = has_prop b k"
    by (auto simp: s' b dom_update)
next
  assume "\<not> truthy (get_prop (get_prop b ''generationConfig'') ''response_mime_type'')"
  then show "sanitize b = b" by (rule sanitize_falsy)
next
  assume a: "passes_admission env p req apiKey b"
  show "fetched (handler_text env p f req)
      = Some (upstream_call ENDPOINT_text apiKey (sanitize b))"
    by (rule admitted_fetched(1) [OF a])
  show "fetched (handler_image env p f req)
      = Some (upstream_call ENDPOINT_image apiKey (sanitize b))"
    by (rule admitted_fetched(2) [OF a])
  show "fc_body (upstream_call ENDPOINT_text apiKey (sanitize b)) = JSON_stringify (sanitize b)"
    "fc_body (upstream_call ENDPOINT_image apiKey (sanitize b)) = JSON_stringify (sanitize b)"
    by (simp_all add: upstream_call_def)
qed

text \<open>
  The theorem at the body
  \<^verbatim>\<open>{contents: [], generationConfig: {temperature: 1, response_mime_type: "text/plain"}}\<close>:
  the field is gone, \<^verbatim>\<open>temperature\<close> and \<^verbatim>\<open>contents\<close> are as before.
\<close>

theorem sanitize_removes_truthy_mime_type_witness:
  "\<not> has_prop (get_prop (sanitize (JObj [(''contents'', JArr []),
         (''generationConfig'', JObj [(''temperature'', JNum ''1''),
            (''response_mime_type'', JStr ''text/plain'')])])) ''generationConfig'')
       ''response_mime_type''
 \<and> get_prop (get_prop (sanitize (JObj [(''contents'', JArr []),
         (''generationConfig'', JObj [(''temperature'', JNum ''1''),
            (''response_mime_type'', JStr ''text/plain'')])])) ''generationConfig'')
       ''temperature'' = JNum ''1''
 \<and> get_prop (sanitize (JObj [(''contents'', JArr []),
         (''generationConfig'', JObj [(''temperature'', JNum ''1''),
            (''response_mime_type'', JStr ''text/plain'')])])) ''contents'' = JArr []"
proof -
  have t: "truthy (get_prop (get_prop (JObj [(''contents'', JArr []),
         (''generationConfig'', JObj [(''temperature'', JNum ''1''),
            (''response_mime_type'', JStr ''text/plain'')])]) ''generationConfig'')
       ''response_mime_type'')"
    by simp
  have r: "get_prop (get_prop (JObj [(''contents'', JArr []),
         (''generationConfig'', JObj [(''temperature'', JNum ''1''),
            (''response_mime_type'', JStr ''text/plain'')])]) ''generationConfig'')
       ''temperature'' = JNum ''1''"
    and c: "get_prop (JObj [(''contents'', JArr []),
         (''generationConfig'', JObj [(''temperature'', JNum ''1''),
            (''response_mime_type'', JStr ''text/plain'')])]) ''contents'' = JArr []"
    by simp_all
  have n: "''temperature'' \<noteq> ''response_mime_type''" "''contents'' \<noteq> ''generationConfig''"
    by simp_all
  show ?thesis
    using sanitize_removes_truthy_mime_type [of "JObj [(''contents'', JArr []),
         (''generationConfig'', JObj [(''temperature'', JNum ''1''),
            (''response_mime_type'', JStr ''text/plain'')])]"] t r c n
    by metis
qed

text \<open>
  A \<^verbatim>\<open>POST\<close> whose body is \<^verbatim>\<open>null\<close>: \<^verbatim>\<open>typeof null\<close> is \<^verbatim>\<open>'object'\<close>, so the body is taken
  as it is, and what is forwarded is the text \<^verbatim>\<open>null\<close>, not \<^verbatim>\<open>{}\<close>.
\<close>

theorem null_body_forwarded_as_null:
  "parse_body JSON_parse_example JNull = Some JNull
 \<and> map_option fc_body (fetched (handler_text
       \<lparr>ALLOWED_ORIGINS = None, GEMINI_API_KEY = Some ''k'', CLIENT_TOKEN = None\<rparr>
       JSON_parse_example fetch_echo
       \<lparr>req_method = ''POST'', req_origin = None, req_client_token = None,
        req_body = JNull\<rparr>)) = Some (Some ''null'')
 \<and> map_option fc_body (fetched (handler_image
       \<lparr>ALLOWED_ORIGINS = None, GEMINI_API_KEY = Some ''k'', CLIENT_TOKEN = None\<rparr>
       JSON_parse_example fetch_echo
       \<lparr>req_method = ''POST'', req_origin = None, req_client_token = None,
        req_body = JNull\<rparr>)) \<noteq> Some (Some ''{}'')"
proof -
  have a: "passes_admission
      \<lparr>ALLOWED_ORIGINS = None, GEMINI_API_KEY = Some ''k'', CLIENT_TOKEN = None\<rparr>
      JSON_parse_example
      \<lparr>req_method = ''POST'', req_origin = None, req_client_token = None, req_body = JNull\<rparr>
      ''k'' JNull"
    by (simp add: passes_admission_def parse_body_def)
  have s: "sanitize JNull = JNull"
    by (simp add: sanitize_def opt_get_def)
  show ?thesis
    using admitted_fetched [OF a, of fetch_echo]
    by (simp add: s upstream_call_def parse_body_def)
qed

text \<open>
  C10, amended. For a \<^verbatim>\<open>POST\<close> that passes the checks of key and token, \<^verbatim>\<open>JSON.parse\<close>
  mapping the text \<^verbatim>\<open>{}\<close> to the empty object: when the body is missing or is the empty
  string, it is taken to be the empty object and the request is forwarded with the body
  \<^verbatim>\<open>{}\<close>; when the body is \<^verbatim>\<open>null\<close>, parsing does not fail either and the request is
  forwarded, not rejected.
\<close>

theorem empty_body_forwarded_as_empty_object:
  assumes "req_method req = ''POST''"
    and "GEMINI_API_KEY env = Some apiKey" and "apiKey \<noteq> []"
    and "CLIENT_TOKEN env = None \<or> CLIENT_TOKEN env = Some []
          \<or> req_client_token req = CLIENT_TOKEN env"
    and "p ''{}'' = Some (JObj [])"
  shows "(req_body req = JUndefined \<or> req_body req = JStr [] \<longrightarrow>
            parse_body p (req_body req) = Some (JObj [])
          \<and> fetched (handler_text env p f req)
              = Some (upstream_call ENDPOINT_text apiKey (JObj []))
          \<and> fetched (handler_image env p f req)
              = Some (upstream_call ENDPOINT_image apiKey (JObj []))
          \<and> fc_body (upstream_call ENDPOINT_text apiKey (JObj [])) = Some ''{}''
          \<and> fc_body (upstream_call ENDPOINT_image apiKey (JObj [])) = Some ''{}'')
       \<and> (req_body req = JNull \<longrightarrow>
            parse_body p (req_body req) \<noteq> None
          \<and> fetched (handler_text env p f req) \<noteq> None
          \<and> fetched (handler_image env p f req) \<noteq> None)"
proof (intro conjI impI)
  assume b: "req_body req = JUndefined \<or> req_body req = JStr []"
  then show pb: "parse_body p (req_body req) = Some (JObj [])"
    using assms(5) by (auto simp: parse_body_def)
  with assms have a: "passes_admission env p req apiKey (JObj [])"
    by (simp add: passes_admission_def)
  have s: "sanitize (JObj []) = JObj []"
    by (simp add: sanitize_def opt_get_def)
  show "fetched (handler_text env p f req)
      = Some (upstream_call ENDPOINT_text apiKey (JObj []))"
    using admitted_fetched(1) [OF a] by (simp add: s)
  show "fetched (handler_image env p f req)
      = Some (upstream_call ENDPOINT_image apiKey (JObj []))"
    using admitted_fetched(2) [OF a] by (simp add: s)
  show "fc_body (upstream_call ENDPOINT_text apiKey (JObj [])) = Some ''{}''"
    "fc_body (upstream_call ENDPOINT_image apiKey (JObj [])) = Some ''{}''"
    by (simp_all add: upstream_call_def)
next
  assume n: "req_body req = JNull"
  then have pb: "parse_body p (req_body req) = Some JNull"
    by (simp add: parse_body_def)
  then show "parse_body p (req_body req) \<noteq> None" by simp
  from pb assms have a: "passes_admission env p req apiKey JNull"
    by (simp add: passes_admission_def)
  show "fetched (handler_text env p f req) \<noteq> None"
    using admitted_fetched(1) [OF a] by simp
  show "fetched (handler_image env p f req) \<noteq> None"
    using admitted_fetched(2) [OF a] by simp
qed

text \<open>The theorem at a \<^verbatim>\<open>POST\<close> without body, with the token that is required.\<close>

theorem empty_body_forwarded_as_empty_object_witness:
  "map_option fc_body (fetched (handler_text
       \<lparr>ALLOWED_ORIGINS = None, GEMINI_API_KEY = Some ''k'', CLIENT_TOKEN = Some ''t''\<rparr>
       JSON_parse_example fetch_echo
       \<lparr>req_method = ''POST'', req_origin = None, req_client_token = Some ''t'',
        req_body = JUndefined\<rparr>)) = Some (Some ''{}'')
 \<and> map_option fc_body (fetched (handler_image
       \<lparr>ALLOWED_ORIGINS = None, GEMINI_API_KEY = Some ''k'', CLIENT_TOKEN = Some ''t''\<rparr>
       JSON_parse_example fetch_echo
       \<lparr>req_method = ''POST'', req_origin = None, req_client_token = Some ''t'',
        req_body = JUndefined\<rparr>)) = Some (Some ''{}'')"
proof -
  have m: "req_method \<lparr>req_method = ''POST'', req_origin = None,
        req_client_token = Some ''t'', req_body = JUndefined\<rparr> = ''POST''"
    by simp
  have k: "GEMINI_API_KEY \<lparr>ALLOWED_ORIGINS = None, GEMINI_API_KEY = Some ''k'',
        CLIENT_TOKEN = Some ''t''\<rparr> = Some ''k''" and k': "''k'' \<noteq> []"
    by simp_all
  have t: "CLIENT_TOKEN \<lparr>ALLOWED_ORIGINS = None, GEMINI_API_KEY = Some ''k'',
        CLIENT_TOKEN = Some ''t''\<rparr> = None
      \<or> CLIENT_TOKEN \<lparr>ALLOWED_ORIGINS = None, GEMINI_API_KEY = Some ''k'',
        CLIENT_TOKEN = Some ''t''\<rparr> = Some []
      \<or> req_client_token \<lparr>req_method = ''POST'', req_origin = None,
        req_client_token = Some ''t'', req_body = JUndefined\<rparr>
        = CLIENT_TOKEN \<lparr>ALLOWED_ORIGINS = None, GEMINI_API_KEY = Some ''k'',
        CLIENT_TOKEN = Some ''t''\<rparr>"
    by simp
  have e: "JSON_parse_example ''{}'' = Some (JObj [])"
    by (simp add: JSON_parse_example_def)
  show ?thesis
    using empty_body_forwarded_as_empty_object
        [where p = JSON_parse_example and f = fetch_echo, OF m k k' t e]
    by simp
qed

section \<open>Relaying the upstream\<close>









text \<open>
  C5. For a \<^verbatim>\<open>POST\<close> that passes admission, when \<^verbatim>\<open>fetch\<close> rejects: the status is 502 and
  the body is \<^verbatim>\<open>{error: "Upstream fetch failed", detail: d}\<close>, where \<open>d\<close> is the message of
  the error, or \<^verbatim>\<open>TypeError\<close> when the message is empty; \<open>d\<close> is never empty.
\<close>

theorem upstream_failure_502:
  assumes "passes_admission env p req apiKey parsed"
  shows "(f (upstream_call ENDPOINT_text apiKey (sanitize parsed)) = Rejected err \<longrightarrow>
            res_status (sent (handler_text env p f req)) = 502
          \<and> res_body (sent (handler_text env p f req))
              = JsonBody (JObj [(''error'', JStr ''Upstream fetch failed''),
                                (''detail'', JStr (error_detail err))]))
       \<and> (f (upstream_call ENDPOINT_image apiKey (sanitize parsed)) = Rejected err \<longrightarrow>
            res_status (sent (handler_image env p f req)) = 502
          \<and> res_body (sent (handler_image env p f req))
              = JsonBody (JObj [(''error'', JStr ''Upstream fetch failed''),
                                (''detail'', JStr (error_detail err))]))
       \<and> error_detail err \<noteq> []
       \<and> error_detail err = (if message err = [] then ''TypeError'' else message err)"
proof -
  have d: "error_detail err \<noteq> []"
    and d': "error_detail err = (if message err = [] then ''TypeError'' else message err)"
    by (cases err; simp add: error_detail_def)+
  note r = rejected_handlers [where f = f and err = err, OF assms]
  show ?thesis
    using r d d' by blast
qed

text \<open>The theorem at a \<^verbatim>\<open>POST\<close> of \<^verbatim>\<open>{}\<close> while the upstream cannot be reached.\<close>

theorem upstream_failure_502_witness:
  "res_status (sent (handler_text
       \<lparr>ALLOWED_ORIGINS = None, GEMINI_API_KEY = Some ''k'', CLIENT_TOKEN = None\<rparr>
       JSON_parse_example fetch_unreachable
       \<lparr>req_method = ''POST'', req_origin = None, req_client_token = None,
        req_body = JObj []\<rparr>)) = 502
 \<and> res_body (sent (handler_image
       \<lparr>ALLOWED_ORIGINS = None, GEMINI_API_KEY = Some ''k'', CLIENT_TOKEN = None\<rparr>
       JSON_parse_example fetch_unreachable
       \<lparr>req_method = ''POST'', req_origin = None, req_client_token = None,
        req_body = JObj []\<rparr>))
     = JsonBody (JObj [(''error'', JStr ''Upstream fetch failed''),
                       (''detail'', JStr ''fetch failed'')])"
proof -
  have a: "passes_admission
      \<lparr>ALLOWED_ORIGINS = None, GEMINI_API_KEY = Some ''k'', CLIENT_TOKEN = None\<rparr>
      JSON_parse_example
      \<lparr>req_method = ''POST'', req_origin = None, req_client_token = None, req_body = JObj []\<rparr>
      ''k'' (JObj [])"
    by (simp add: passes_admission_def parse_body_def)
  show ?thesis
    using upstream_failure_502 [OF a, of fetch_unreachable "TypeError ''fetch failed''"]
    by (simp add: fetch_unreachable_def error_detail_def)
qed

end
